theory Spec2Isabelle
  imports Complex_Main "HOL-Library.AList"
begin

section \<open>The banking service: accounts, transactions and the ledger\<close>

text \<open>
  The repository holds two variants of the same service. The company-aware one is
  \<^verbatim>\<open>src/unnamed/part_002\<close> (\<^verbatim>\<open>Account.ts\<close> with a \<^verbatim>\<open>companyId\<close>) and \<^verbatim>\<open>src/unnamed/part_003\<close>
  (the \<^verbatim>\<open>BankingService.ts\<close> that checks it); the plain one is
  \<^verbatim>\<open>src/src/services/BankingService.ts\<close> with \<^verbatim>\<open>src/src/domain/models/Transaction.ts\<close>.
  Both are embedded: the plain records are the base records, the company-aware ones
  extend them by the field \<^verbatim>\<open>companyId\<close>, and the functions of the plain service carry
  the suffix \<open>_plain\<close>.

  A TypeScript \<^verbatim>\<open>number\<close> is the type parameter \<open>'n\<close>. The definitions use only the
  operations the code uses (\<open>\<le>\<close>, \<open><\<close>, \<open>+\<close>, \<open>-\<close>, \<open>0\<close>); the theorems say on which number
  types they hold. A theorem about the control flow holds for every number type. The type
  \<open>double\<close> below is the IEEE 754 binary64 number that a \<^verbatim>\<open>number\<close> is at run time: what
  depends on the arithmetic or on the order (rounding, \<^verbatim>\<open>Infinity\<close>, \<open>NaN\<close>) is stated for it.
  A theorem stated for an ordered abelian group (\<open>int\<close>, \<open>rat\<close>, \<open>real\<close>) describes the
  service on amounts whose sums and differences are computed without rounding.

  A method that mutates returns the error it threw, if any, together with the state
  after the call, so that "nothing was mutated" is a statement about the result.
\<close>

subsection \<open>Errors (\<^verbatim>\<open>BankingError.ts\<close>, zod, and the built-in \<^verbatim>\<open>Error\<close>)\<close>

text \<open>
  \<open>ZodError\<close> is what \<^verbatim>\<open>Schema.parse\<close> throws (its list of issues is not modelled) and
  \<open>Error msg\<close> is \<^verbatim>\<open>new Error(msg)\<close>. \<open>AccountNotFoundError\<close> and \<open>InsufficientFundsError\<close> carry
  the arguments of their constructors in \<^verbatim>\<open>BankingError.ts\<close>.

  Modelled from the spec: the class \<^verbatim>\<open>CompanyMismatchError\<close> is not in the \<^verbatim>\<open>BankingError.ts\<close>
  among the sources; the company-aware service and its tests construct it with two
  arguments, which the spec names ("TenantMismatch(expected, actual)").
\<close>

datatype 'n error =
    ZodError
  | Error string
  | AccountNotFoundError string
  | CompanyMismatchError string string
  | InsufficientFundsError string 'n 'n

subsection \<open>Accounts (\<^verbatim>\<open>Account.ts\<close>)\<close>

text \<open>
  The company-aware account is \<^verbatim>\<open>src/unnamed/part_002\<close>.

  Modelled from the spec: the \<^verbatim>\<open>Account.ts\<close> of the plain service is not among the sources
  (its tests are, \<^verbatim>\<open>src/unnamed/part_000\<close>: an account number and a balance, and the same
  four operations with the same outcomes). It is the account without the field
  \<^verbatim>\<open>companyId\<close>, and the operations below are defined on both.
\<close>

record 'n account =
  accountNumber :: string
  balance :: 'n

record 'n company_account = "'n account" +
  companyId :: string

text \<open>\<^verbatim>\<open>/^\d+$/\<close>: one or more characters, every one an ASCII digit.\<close>

definition isDigit :: "char \<Rightarrow> bool" where
  "isDigit c = (c \<in> set ''0123456789'')"

definition digits_regex :: "string \<Rightarrow> bool" where
  "digits_regex s = (s \<noteq> [] \<and> list_all isDigit s)"

text \<open>\<^verbatim>\<open>z.string().length(16).regex(/^\d+$/)\<close>\<close>

definition accountNumber_ok :: "string \<Rightarrow> bool" where
  "accountNumber_ok s = (length s = 16 \<and> digits_regex s)"

text \<open>
  \<^verbatim>\<open>AccountSchema\<close>: the account number as above and \<^verbatim>\<open>balance: z.number().min(0)\<close>.
  A record field is always present and a string, which is all \<^verbatim>\<open>companyId: z.string()\<close> asks.
\<close>

definition AccountSchema :: "('n::{ord,zero}, 'm) account_scheme \<Rightarrow> bool" where
  "AccountSchema a = (accountNumber_ok (accountNumber a) \<and> 0 \<le> balance a)"

text \<open>The constructor: \<^verbatim>\<open>this.account = AccountSchema.parse(account)\<close>.\<close>

definition AccountEntity ::
  "('n::{ord,zero}, 'm) account_scheme \<Rightarrow> 'n error + ('n, 'm) account_scheme" where
  "AccountEntity a = (if AccountSchema a then Inr a else Inl ZodError)"

definition canWithdraw :: "('n::ord, 'm) account_scheme \<Rightarrow> 'n \<Rightarrow> bool" where
  "canWithdraw a amt = (amt \<le> balance a)"

text \<open>\<open>withdraw\<close> returns the error thrown, if any, and the account as it is after the call.\<close>

definition withdraw ::
  "('n::{ord,minus}, 'm) account_scheme \<Rightarrow> 'n \<Rightarrow> 'n error option \<times> ('n, 'm) account_scheme" where
  "withdraw a amt =
     (if \<not> canWithdraw a amt then (Some (Error ''Insufficient funds''), a)
      else (None, a\<lparr>balance := balance a - amt\<rparr>))"

definition deposit :: "('n::plus, 'm) account_scheme \<Rightarrow> 'n \<Rightarrow> ('n, 'm) account_scheme" where
  "deposit a amt = a\<lparr>balance := balance a + amt\<rparr>"

subsection \<open>Transactions (\<^verbatim>\<open>Transaction.ts\<close>)\<close>

record 'n transaction =
  fromAccount :: string
  toAccount :: string
  amount :: 'n

text \<open>
  Modelled from the spec: the company-aware \<^verbatim>\<open>Transaction.ts\<close> is not among the sources
  (only its callers are: the service reads \<^verbatim>\<open>transaction.getCompanyId()\<close> and the tests
  build transactions with a \<^verbatim>\<open>companyId\<close>). Following the data model of the spec
  ("source account number, destination account number, amount (strictly positive decimal),
  optional tenant identifier"), it is the plain transaction extended by that field, with
  the plain schema's checks.
\<close>

record 'n company_transaction = "'n transaction" +
  companyId :: string

text \<open>\<^verbatim>\<open>TransactionSchema\<close>: two account numbers and \<^verbatim>\<open>amount: z.number().positive()\<close>.\<close>

definition TransactionSchema :: "('n::{ord,zero}, 'm) transaction_scheme \<Rightarrow> bool" where
  "TransactionSchema t =
     (accountNumber_ok (fromAccount t) \<and> accountNumber_ok (toAccount t) \<and> 0 < amount t)"

definition TransactionEntity ::
  "('n::{ord,zero}, 'm) transaction_scheme \<Rightarrow> 'n error + ('n, 'm) transaction_scheme" where
  "TransactionEntity t = (if TransactionSchema t then Inr t else Inl ZodError)"

subsection \<open>The ledger\<close>

text \<open>
  \<^verbatim>\<open>Map<string, AccountEntity>\<close>: a JavaScript map keeps its keys in insertion order, and
  \<^verbatim>\<open>set\<close> on a key that is present replaces the value where it stands. That is an
  association list with \<^const>\<open>AList.update\<close>; \<^const>\<open>map_of\<close> is \<^verbatim>\<open>get\<close>.

  The map holds objects. An entity's account number never changes and is the key it is
  stored under, so two keys never hold the same object; two lookups yield the same object
  exactly when the keys are equal.
\<close>

type_synonym 'a ledger = "(string \<times> 'a) list"

text \<open>The constructor of the service: \<^verbatim>\<open>initialAccounts.forEach(a => accounts.set(a.getAccountNumber(), a))\<close>.\<close>

definition BankingService :: "('n, 'm) account_scheme list \<Rightarrow> ('n, 'm) account_scheme ledger" where
  "BankingService initialAccounts =
     foldl (\<lambda>accounts a. AList.update (accountNumber a) a accounts) [] initialAccounts"

definition getAllAccounts :: "'a ledger \<Rightarrow> 'a list" where
  "getAllAccounts accounts = map snd accounts"

text \<open>
  The last two statements of both \<^verbatim>\<open>processTransaction\<close> and \<^verbatim>\<open>transfer\<close>:
  \<^verbatim>\<open>fromAccount.withdraw(amount); toAccount.deposit(amount);\<close>
  on the objects found under the keys \<open>fromKey\<close> and \<open>toKey\<close>. When the keys are equal
  \<^verbatim>\<open>toAccount\<close> is the object that \<^verbatim>\<open>withdraw\<close> has just changed.
\<close>

definition withdraw_deposit ::
  "('n::{ord,minus,plus}, 'm) account_scheme ledger \<Rightarrow> string \<Rightarrow> ('n, 'm) account_scheme \<Rightarrow>
     string \<Rightarrow> ('n, 'm) account_scheme \<Rightarrow> 'n \<Rightarrow>
     'n error option \<times> ('n, 'm) account_scheme ledger" where
  "withdraw_deposit accounts fromKey fromAcc toKey toAcc amt =
     (case withdraw fromAcc amt of
        (Some e, fromAcc') \<Rightarrow> (Some e, AList.update fromKey fromAcc' accounts)
      | (None, fromAcc') \<Rightarrow>
          (let accounts' = AList.update fromKey fromAcc' accounts;
               toAcc' = (if toKey = fromKey then fromAcc' else toAcc)
           in (None, AList.update toKey (deposit toAcc' amt) accounts')))"

subsection \<open>The company-aware service (\<^verbatim>\<open>src/unnamed/part_003\<close>)\<close>

definition processTransaction ::
  "('n::{ord,minus,plus}) company_account ledger \<Rightarrow> 'n company_transaction \<Rightarrow>
     'n error option \<times> 'n company_account ledger" where
  "processTransaction accounts transaction =
     (case map_of accounts (fromAccount transaction) of
        None \<Rightarrow> (Some (AccountNotFoundError (fromAccount transaction)), accounts)
      | Some fromAcc \<Rightarrow>
     (case map_of accounts (toAccount transaction) of
        None \<Rightarrow> (Some (AccountNotFoundError (toAccount transaction)), accounts)
      | Some toAcc \<Rightarrow>
          if company_account.companyId fromAcc \<noteq> company_transaction.companyId transaction
             \<or> company_account.companyId toAcc \<noteq> company_transaction.companyId transaction
          then (Some (CompanyMismatchError (company_transaction.companyId transaction)
                  (if company_account.companyId fromAcc \<noteq> company_transaction.companyId transaction
                   then company_account.companyId fromAcc
                   else company_account.companyId toAcc)), accounts)
          else if \<not> canWithdraw fromAcc (amount transaction)
          then (Some (InsufficientFundsError (accountNumber fromAcc) (amount transaction)
                  (balance fromAcc)), accounts)
          else withdraw_deposit accounts (fromAccount transaction) fromAcc
                 (toAccount transaction) toAcc (amount transaction)))"

text \<open>\<^verbatim>\<open>getAccountBalance\<close> assigns nothing: it returns the balance or throws.\<close>

definition getAccountBalance ::
  "'n company_account ledger \<Rightarrow> string \<Rightarrow> string \<Rightarrow> 'n error + 'n" where
  "getAccountBalance accounts accountNo company =
     (case map_of accounts accountNo of
        None \<Rightarrow> Inl (AccountNotFoundError accountNo)
      | Some account \<Rightarrow>
          if company_account.companyId account \<noteq> company
          then Inl (CompanyMismatchError company (company_account.companyId account))
          else Inr (balance account))"

definition transfer ::
  "('n::{ord,zero,minus,plus}) company_account ledger \<Rightarrow> string \<Rightarrow> string \<Rightarrow> 'n \<Rightarrow> string \<Rightarrow>
     'n error option \<times> 'n company_account ledger" where
  "transfer accounts fromAccountNumber toAccountNumber amt company =
     (if amt \<le> 0 then (Some (Error ''Amount must be greater than 0''), accounts)
      else
     (case map_of accounts fromAccountNumber of
        None \<Rightarrow> (Some (AccountNotFoundError fromAccountNumber), accounts)
      | Some fromAcc \<Rightarrow>
     (case map_of accounts toAccountNumber of
        None \<Rightarrow> (Some (AccountNotFoundError toAccountNumber), accounts)
      | Some toAcc \<Rightarrow>
          if company_account.companyId fromAcc \<noteq> company
             \<or> company_account.companyId toAcc \<noteq> company
          then (Some (CompanyMismatchError company
                  (if company_account.companyId fromAcc \<noteq> company
                   then company_account.companyId fromAcc
                   else company_account.companyId toAcc)), accounts)
          else if balance fromAcc < amt
          then (Some (InsufficientFundsError (accountNumber fromAcc) amt (balance fromAcc)),
                accounts)
          else withdraw_deposit accounts fromAccountNumber fromAcc toAccountNumber toAcc amt)))"

subsection \<open>The plain service (\<^verbatim>\<open>src/src/services/BankingService.ts\<close>)\<close>

definition processTransaction_plain ::
  "('n::{ord,minus,plus}) account ledger \<Rightarrow> 'n transaction \<Rightarrow>
     'n error option \<times> 'n account ledger" where
  "processTransaction_plain accounts transaction =
     (case map_of accounts (fromAccount transaction) of
        None \<Rightarrow> (Some (AccountNotFoundError (fromAccount transaction)), accounts)
      | Some fromAcc \<Rightarrow>
     (case map_of accounts (toAccount transaction) of
        None \<Rightarrow> (Some (AccountNotFoundError (toAccount transaction)), accounts)
      | Some toAcc \<Rightarrow>
          if \<not> canWithdraw fromAcc (amount transaction)
          then (Some (InsufficientFundsError (accountNumber fromAcc) (amount transaction)
                  (balance fromAcc)), accounts)
          else withdraw_deposit accounts (fromAccount transaction) fromAcc
                 (toAccount transaction) toAcc (amount transaction)))"

definition getAccountBalance_plain :: "'n account ledger \<Rightarrow> string \<Rightarrow> 'n error + 'n" where
  "getAccountBalance_plain accounts accountNo =
     (case map_of accounts accountNo of
        None \<Rightarrow> Inl (AccountNotFoundError accountNo)
      | Some account \<Rightarrow> Inr (balance account))"

definition transfer_plain ::
  "('n::{ord,zero,minus,plus}) account ledger \<Rightarrow> string \<Rightarrow> string \<Rightarrow> 'n \<Rightarrow>
     'n error option \<times> 'n account ledger" where
  "transfer_plain accounts fromAccountNumber toAccountNumber amt =
     (if amt \<le> 0 then (Some (Error ''Amount must be greater than 0''), accounts)
      else
     (case map_of accounts fromAccountNumber of
        None \<Rightarrow> (Some (AccountNotFoundError fromAccountNumber), accounts)
      | Some fromAcc \<Rightarrow>
     (case map_of accounts toAccountNumber of
        None \<Rightarrow> (Some (AccountNotFoundError toAccountNumber), accounts)
      | Some toAcc \<Rightarrow>
          if balance fromAcc < amt
          then (Some (InsufficientFundsError (accountNumber fromAcc) amt (balance fromAcc)),
                accounts)
          else withdraw_deposit accounts fromAccountNumber fromAcc toAccountNumber toAcc amt)))"

subsection \<open>Constructing a transaction and processing it\<close>

text \<open>
  The spec describes \<^verbatim>\<open>transfer\<close> by comparison with "constructing a Transfer and calling
  processTransfer". That composition, as the callers write it (\<^verbatim>\<open>index.ts\<close> and the tests:
  \<^verbatim>\<open>new TransactionEntity({...})\<close>, then \<^verbatim>\<open>processTransaction\<close>): when the constructor throws, the
  service is never called and the ledger stays as it is.
\<close>

definition construct_and_process ::
  "('n::{ord,zero,minus,plus}) company_account ledger \<Rightarrow> string \<Rightarrow> string \<Rightarrow> 'n \<Rightarrow> string \<Rightarrow>
     'n error option \<times> 'n company_account ledger" where
  "construct_and_process accounts fromAccountNumber toAccountNumber amt company =
     (case TransactionEntity \<lparr>fromAccount = fromAccountNumber, toAccount = toAccountNumber,
             amount = amt, company_transaction.companyId = company\<rparr> of
        Inl e \<Rightarrow> (Some e, accounts)
      | Inr transaction \<Rightarrow> processTransaction accounts transaction)"

definition construct_and_process_plain ::
  "('n::{ord,zero,minus,plus}) account ledger \<Rightarrow> string \<Rightarrow> string \<Rightarrow> 'n \<Rightarrow>
     'n error option \<times> 'n account ledger" where
  "construct_and_process_plain accounts fromAccountNumber toAccountNumber amt =
     (case TransactionEntity \<lparr>fromAccount = fromAccountNumber, toAccount = toAccountNumber,
             amount = amt\<rparr> of
        Inl e \<Rightarrow> (Some e, accounts)
      | Inr transaction \<Rightarrow> processTransaction_plain accounts transaction)"

subsection \<open>Sequences of calls\<close>

text \<open>
  The public methods of the company-aware service, as a caller may invoke them one after
  the other. \<open>step\<close> is the ledger after one call, whether the call returned or threw.
  \<^verbatim>\<open>getAccountBalance\<close> and \<^verbatim>\<open>getAllAccounts\<close> assign nothing.
\<close>

datatype 'n call =
    ProcessTransaction "'n company_transaction"
  | Transfer string string 'n string
  | GetAccountBalance string string
  | GetAllAccounts

fun step ::
  "('n::{ord,zero,minus,plus}) company_account ledger \<Rightarrow> 'n call \<Rightarrow> 'n company_account ledger" where
  "step accounts (ProcessTransaction transaction) = snd (processTransaction accounts transaction)"
| "step accounts (Transfer fromAccountNumber toAccountNumber amt company) =
     snd (transfer accounts fromAccountNumber toAccountNumber amt company)"
| "step accounts (GetAccountBalance accountNo company) = accounts"
| "step accounts GetAllAccounts = accounts"

text \<open>A call whose transaction, if it takes one, is one that the validating constructor returns.\<close>

fun constructed :: "('n::{ord,zero}) call \<Rightarrow> bool" where
  "constructed (ProcessTransaction transaction) = (TransactionEntity transaction = Inr transaction)"
| "constructed _ = True"

subsection \<open>The accounts of the test suites (\<^verbatim>\<open>BankingService.test.ts\<close>)\<close>

text \<open>Shorthand for the object literals that the tests pass to the constructors.\<close>

abbreviation acct :: "string \<Rightarrow> 'n \<Rightarrow> string \<Rightarrow> 'n company_account" where
  "acct accountNo bal company \<equiv>
     \<lparr>accountNumber = accountNo, balance = bal, company_account.companyId = company\<rparr>"

abbreviation acct_plain :: "string \<Rightarrow> 'n \<Rightarrow> 'n account" where
  "acct_plain accountNo bal \<equiv> \<lparr>accountNumber = accountNo, balance = bal\<rparr>"

abbreviation tx :: "string \<Rightarrow> string \<Rightarrow> 'n \<Rightarrow> string \<Rightarrow> 'n company_transaction" where
  "tx fromNo toNo amt company \<equiv>
     \<lparr>fromAccount = fromNo, toAccount = toNo, amount = amt,
        company_transaction.companyId = company\<rparr>"

abbreviation tx_plain :: "string \<Rightarrow> string \<Rightarrow> 'n \<Rightarrow> 'n transaction" where
  "tx_plain fromNo toNo amt \<equiv> \<lparr>fromAccount = fromNo, toAccount = toNo, amount = amt\<rparr>"

definition test_accounts :: "rat company_account list" where
  "test_accounts =
     [acct ''1111234522226789'' 5000 ''alpha-sales'',
      acct ''1111234522221234'' 10000 ''alpha-sales'',
      acct ''2222123433331212'' 550 ''alpha-sales'',
      acct ''9999999999999999'' 1000 ''beta-sales'']"

definition test_accounts_plain :: "rat account list" where
  "test_accounts_plain =
     [acct_plain ''1111234522226789'' 5000,
      acct_plain ''1111234522221234'' 10000,
      acct_plain ''2222123433331212'' 550]"

subsection \<open>IEEE 754 binary64 numbers\<close>

text \<open>
  \<open>Finite m e\<close> is the number \<open>m * 2 ^ e\<close>. The functions below return it in the form
  binary64 stores: \<open>2 ^ 52 \<le> \<bar>m\<bar> < 2 ^ 53\<close> and \<open>- 1074 \<le> e \<le> 971\<close> for a normal number,
  \<open>\<bar>m\<bar> < 2 ^ 52\<close> and \<open>e = - 1074\<close> for a subnormal number and for zero. The sign of zero
  is not modelled. Rounding is to the nearest number, ties to the even mantissa, the only
  mode JavaScript has.
\<close>

datatype double = Finite int int | PosInf | NegInf | NaN

text \<open>The number of binary digits of a positive integer.\<close>

function bit_length :: "int \<Rightarrow> nat" where
  "bit_length n = (if n \<le> 0 then 0 else Suc (bit_length (n div 2)))"
  by pat_completeness auto
termination
  by (relation "measure nat") auto

declare bit_length.simps [simp del]

text \<open>
  \<open>round_dyadic M e\<close> is the binary64 number nearest to \<open>M * 2 ^ e\<close>: the lowest \<open>s\<close> digits
  of \<open>M\<close> are dropped, so that 53 digits are left and the exponent is at least \<open>- 1074\<close>, and
  the rest is rounded up when the dropped digits are more than half a unit, or exactly
  half and the rest is odd.
\<close>

definition round_dyadic :: "int \<Rightarrow> int \<Rightarrow> double" where
  "round_dyadic M e =
     (if M = 0 then Finite 0 (- 1074)
      else
        let s = max (int (bit_length \<bar>M\<bar>) - 53) (- 1074 - e) in
        if s \<le> 0 then
          (if 971 < e + s then (if 0 < M then PosInf else NegInf)
           else Finite (M * 2 ^ nat (- s)) (e + s))
        else
          let q = \<bar>M\<bar> div 2 ^ nat s;
              r = \<bar>M\<bar> mod 2 ^ nat s;
              half = 2 ^ nat (s - 1);
              q' = (if half < r \<or> (r = half \<and> odd q) then q + 1 else q);
              m = (if q' = 2 ^ 53 then 2 ^ 52 else q');
              e' = (if q' = 2 ^ 53 then e + s + 1 else e + s)
          in if 971 < e' then (if 0 < M then PosInf else NegInf)
             else Finite (sgn M * m) e')"

text \<open>
  \<open>literal p q\<close>, for \<open>q > 0\<close>, is the binary64 number nearest to the fraction \<open>p / q\<close>: what
  a decimal literal of the source (\<^verbatim>\<open>0.01\<close> is \<open>literal 1 100\<close>) and \<^verbatim>\<open>parseFloat\<close> on a
  field of the CSV files denote. The quotient is taken to 55 or 56 binary digits, with
  one more digit that says whether anything is left, and rounded once.
\<close>

definition literal :: "int \<Rightarrow> int \<Rightarrow> double" where
  "literal p q =
     (if p = 0 then Finite 0 (- 1074)
      else
        let e0 = int (bit_length \<bar>p\<bar>) - int (bit_length q) - 55;
            n = (if 0 \<le> e0 then \<bar>p\<bar> else \<bar>p\<bar> * 2 ^ nat (- e0));
            d = (if 0 \<le> e0 then q * 2 ^ nat e0 else q);
            sticky = (if n mod d = 0 then 0 else 1)
        in round_dyadic (sgn p * (2 * (n div d) + sticky)) (e0 - 1))"

text \<open>
  The operations of the code on these numbers. A sum of two finite numbers is their exact
  sum, rounded; a difference is the sum with the negated number; a comparison with \<open>NaN\<close>
  is false.
\<close>

instantiation double :: "{zero,plus,minus,uminus,ord}"
begin

definition zero_double :: double where
  "zero_double = Finite 0 (- 1074)"

fun uminus_double :: "double \<Rightarrow> double" where
  "uminus_double (Finite m e) = Finite (- m) e"
| "uminus_double PosInf = NegInf"
| "uminus_double NegInf = PosInf"
| "uminus_double NaN = NaN"

fun plus_double :: "double \<Rightarrow> double \<Rightarrow> double" where
  "plus_double (Finite m1 e1) (Finite m2 e2) =
     round_dyadic (m1 * 2 ^ nat (e1 - min e1 e2) + m2 * 2 ^ nat (e2 - min e1 e2)) (min e1 e2)"
| "plus_double NaN _ = NaN"
| "plus_double _ NaN = NaN"
| "plus_double PosInf NegInf = NaN"
| "plus_double NegInf PosInf = NaN"
| "plus_double PosInf _ = PosInf"
| "plus_double _ PosInf = PosInf"
| "plus_double NegInf _ = NegInf"
| "plus_double _ NegInf = NegInf"

definition minus_double :: "double \<Rightarrow> double \<Rightarrow> double" where
  "minus_double x y = x + (- y)"

fun less_eq_double :: "double \<Rightarrow> double \<Rightarrow> bool" where
  "less_eq_double (Finite m1 e1) (Finite m2 e2) =
     (m1 * 2 ^ nat (e1 - min e1 e2) \<le> m2 * 2 ^ nat (e2 - min e1 e2))"
| "less_eq_double NaN _ = False"
| "less_eq_double _ NaN = False"
| "less_eq_double NegInf _ = True"
| "less_eq_double _ PosInf = True"
| "less_eq_double PosInf _ = False"
| "less_eq_double _ NegInf = False"

fun less_double :: "double \<Rightarrow> double \<Rightarrow> bool" where
  "less_double (Finite m1 e1) (Finite m2 e2) =
     (m1 * 2 ^ nat (e1 - min e1 e2) < m2 * 2 ^ nat (e2 - min e1 e2))"
| "less_double NaN _ = False"
| "less_double _ NaN = False"
| "less_double PosInf _ = False"
| "less_double _ NegInf = False"
| "less_double NegInf _ = True"
| "less_double _ PosInf = True"

instance ..

end

text \<open>The rational number that a finite binary64 number is.\<close>

definition value_of :: "double \<Rightarrow> rat" where
  "value_of x =
     (case x of
        Finite m e \<Rightarrow> (if 0 \<le> e then of_int m * 2 ^ nat e else of_int m / 2 ^ nat (- e))
      | _ \<Rightarrow> 0)"

text \<open>The accounts of the tests again, with their balances as binary64 numbers.\<close>

definition test_accounts_binary64 :: "double company_account list" where
  "test_accounts_binary64 =
     [acct ''1111234522226789'' (literal 5000 1) ''alpha-sales'',
      acct ''1111234522221234'' (literal 10000 1) ''alpha-sales'',
      acct ''2222123433331212'' (literal 550 1) ''alpha-sales'',
      acct ''9999999999999999'' (literal 1000 1) ''beta-sales'']"

subsection \<open>What a successful transfer leaves behind\<close>

text \<open>
  \<open>moved accounts accounts' src fa dst ta amt\<close>: the ledger \<open>accounts'\<close> has the keys of
  \<open>accounts\<close> in the same order; every account other than \<open>src\<close> and \<open>dst\<close> is as it was;
  if \<open>src\<close> and \<open>dst\<close> differ, \<open>src\<close> holds \<open>fa\<close> with the balance \<open>balance fa - amt\<close> and \<open>dst\<close>
  holds \<open>ta\<close> with the balance \<open>balance ta + amt\<close>; if they are the same account, it holds
  \<open>fa\<close> with the balance \<open>balance fa - amt + amt\<close>. The difference and the sum are those of
  the number type: in binary64 they are rounded.
\<close>

abbreviation moved ::
  "('n::{plus,minus}, 'm) account_scheme ledger \<Rightarrow> ('n, 'm) account_scheme ledger \<Rightarrow>
     string \<Rightarrow> ('n, 'm) account_scheme \<Rightarrow> string \<Rightarrow> ('n, 'm) account_scheme \<Rightarrow> 'n \<Rightarrow> bool" where
  "moved accounts accounts' src fa dst ta amt \<equiv>
     map fst accounts' = map fst accounts
     \<and> (\<forall>k. k \<noteq> src \<and> k \<noteq> dst \<longrightarrow> map_of accounts' k = map_of accounts k)
     \<and> (src \<noteq> dst \<longrightarrow>
           map_of accounts' src = Some (fa\<lparr>balance := balance fa - amt\<rparr>)
         \<and> map_of accounts' dst = Some (ta\<lparr>balance := balance ta + amt\<rparr>))
     \<and> (src = dst \<longrightarrow> map_of accounts' src = Some (fa\<lparr>balance := balance fa - amt + amt\<rparr>))"

text \<open>
  A binary64 difference or sum is exact when the operands and the result are finite and
  the result is the difference or sum of the operands as rational numbers: nothing was
  rounded away.
\<close>

fun is_finite :: "double \<Rightarrow> bool" where
  "is_finite (Finite m e) = True"
| "is_finite _ = False"

definition exact_difference :: "double \<Rightarrow> double \<Rightarrow> bool" where
  "exact_difference x y =
     (is_finite x \<and> is_finite y \<and> is_finite (x - y) \<and> value_of (x - y) = value_of x - value_of y)"

definition exact_sum :: "double \<Rightarrow> double \<Rightarrow> bool" where
  "exact_sum x y =
     (is_finite x \<and> is_finite y \<and> is_finite (x + y) \<and> value_of (x + y) = value_of x + value_of y)"

text \<open>
  \<open>moved_exactly fa ta fa' ta' amt\<close>: as rational numbers, the balance of \<open>fa'\<close> is that of
  \<open>fa\<close> less \<open>amt\<close>, the balance of \<open>ta'\<close> is that of \<open>ta\<close> plus \<open>amt\<close>, and the two balances add
  up to what they did.
\<close>

abbreviation moved_exactly ::
  "(double, 'm) account_scheme \<Rightarrow> (double, 'm) account_scheme \<Rightarrow>
     (double, 'm) account_scheme \<Rightarrow> (double, 'm) account_scheme \<Rightarrow> double \<Rightarrow> bool" where
  "moved_exactly fa ta fa' ta' amt \<equiv>
     value_of (balance fa') = value_of (balance fa) - value_of amt
     \<and> value_of (balance ta') = value_of (balance ta) + value_of amt
     \<and> value_of (balance fa') + value_of (balance ta')
         = value_of (balance fa) + value_of (balance ta)"

section \<open>Auxiliary facts\<close>

subsection \<open>Association lists\<close>

lemma update_same: "map_of al k = Some v \<Longrightarrow> AList.update k v al = al"
  by (induction al) (auto split: if_splits)

lemma update_keys_present:
  "map_of al k = Some v \<Longrightarrow> map fst (AList.update k v' al) = map fst al"
  by (simp add: update_keys weak_map_of_SomeI domI dom_map_of_conv_image_fst[symmetric])

lemma set_update_subset: "set (AList.update k v al) \<subseteq> insert (k, v) (set al)"
  by (induction al) auto

subsection \<open>The withdrawal followed by the deposit\<close>

lemma withdraw_deposit_fail:
  "\<not> canWithdraw fa amt \<Longrightarrow> map_of accounts fk = Some fa \<Longrightarrow>
   withdraw_deposit accounts fk fa tk ta amt = (Some (Error ''Insufficient funds''), accounts)"
  by (simp add: withdraw_deposit_def withdraw_def update_same)

lemma withdraw_deposit_distinct:
  "canWithdraw fa amt \<Longrightarrow> fk \<noteq> tk \<Longrightarrow>
   withdraw_deposit accounts fk fa tk ta amt =
     (None, AList.update tk (ta\<lparr>balance := balance ta + amt\<rparr>)
              (AList.update fk (fa\<lparr>balance := balance fa - amt\<rparr>) accounts))"
  by (auto simp add: withdraw_deposit_def withdraw_def deposit_def)

lemma withdraw_deposit_moved:
  fixes accounts :: "('n::{ord,minus,plus}, 'm) account_scheme ledger"
  assumes "map_of accounts src = Some fa" and "map_of accounts dst = Some ta"
    and "canWithdraw fa amt"
  shows "\<exists>accounts'. withdraw_deposit accounts src fa dst ta amt = (None, accounts')
           \<and> moved accounts accounts' src fa dst ta amt"
proof (cases "src = dst")
  case True
  let ?fa' = "fa\<lparr>balance := balance fa - amt\<rparr>"
  let ?l2 = "AList.update src (deposit ?fa' amt) (AList.update src ?fa' accounts)"
  have res: "withdraw_deposit accounts src fa dst ta amt = (None, ?l2)"
    using assms(3) True by (simp add: withdraw_deposit_def withdraw_def)
  have "map_of (AList.update src ?fa' accounts) src = Some ?fa'"
    by (simp add: AList.update_conv')
  then have keys: "map fst ?l2 = map fst accounts"
    using assms(1) by (simp add: update_keys_present)
  have others: "\<forall>k. k \<noteq> src \<and> k \<noteq> dst \<longrightarrow> map_of ?l2 k = map_of accounts k"
    by (simp add: AList.update_conv')
  have "map_of ?l2 src = Some (fa\<lparr>balance := balance fa - amt + amt\<rparr>)"
    by (simp add: AList.update_conv' deposit_def)
  with res keys others True show ?thesis by simp
next
  case False
  let ?l1 = "AList.update src (fa\<lparr>balance := balance fa - amt\<rparr>) accounts"
  let ?l2 = "AList.update dst (ta\<lparr>balance := balance ta + amt\<rparr>) ?l1"
  have res: "withdraw_deposit accounts src fa dst ta amt = (None, ?l2)"
    using assms(3) False by (simp add: withdraw_deposit_distinct)
  have "map_of ?l1 dst = Some ta"
    using assms(2) False by (simp add: AList.update_conv')
  then have keys: "map fst ?l2 = map fst accounts"
    using assms(1) by (simp add: update_keys_present)
  have others: "\<forall>k. k \<noteq> src \<and> k \<noteq> dst \<longrightarrow> map_of ?l2 k = map_of accounts k"
    by (simp add: AList.update_conv')
  have src: "map_of ?l2 src = Some (fa\<lparr>balance := balance fa - amt\<rparr>)"
    using False by (simp add: AList.update_conv')
  have dst: "map_of ?l2 dst = Some (ta\<lparr>balance := balance ta + amt\<rparr>)"
    by (simp add: AList.update_conv')
  from res keys others src dst False show ?thesis by simp
qed

subsection \<open>The ledgers of the test suites\<close>

lemma BankingService_test_accounts:
  "BankingService test_accounts =
     [(''1111234522226789'', acct ''1111234522226789'' 5000 ''alpha-sales''),
      (''1111234522221234'', acct ''1111234522221234'' 10000 ''alpha-sales''),
      (''2222123433331212'', acct ''2222123433331212'' 550 ''alpha-sales''),
      (''9999999999999999'', acct ''9999999999999999'' 1000 ''beta-sales'')]"
  by (simp add: BankingService_def test_accounts_def)

lemma BankingService_test_accounts_plain:
  "BankingService test_accounts_plain =
     [(''1111234522226789'', acct_plain ''1111234522226789'' 5000),
      (''1111234522221234'', acct_plain ''1111234522221234'' 10000),
      (''2222123433331212'', acct_plain ''2222123433331212'' 550)]"
  by (simp add: BankingService_def test_accounts_plain_def)

subsection \<open>The order and the signs of binary64 numbers\<close>

lemma zero_le_double:
  "(0 \<le> Finite m e) = (0 \<le> m)" "(0 \<le> PosInf) = True" "(0 \<le> NegInf) = False" "(0 \<le> NaN) = False"
  by (simp_all add: zero_double_def zero_le_mult_iff)

lemma zero_less_double:
  "(0 < Finite m e) = (0 < m)" "(0 < PosInf) = True" "(0 < NegInf) = False" "(0 < NaN) = False"
  by (simp_all add: zero_double_def zero_less_mult_iff)

lemma le_zero_double:
  "(Finite m e \<le> 0) = (m \<le> 0)" "(PosInf \<le> 0) = False" "(NegInf \<le> 0) = True" "(NaN \<le> 0) = False"
  by (simp_all add: zero_double_def mult_le_0_iff)

lemma less_zero_double:
  "(Finite m e < 0) = (m < 0)" "(PosInf < 0) = False" "(NegInf < 0) = True" "(NaN < 0) = False"
  by (simp_all add: zero_double_def mult_less_0_iff)

lemma double_sign_cases:
  fixes x :: double
  shows "x \<le> 0 \<or> 0 < x \<or> x = NaN"
  by (cases x) (auto simp add: le_zero_double zero_less_double)

lemma double_pos_not_le_zero:
  fixes x :: double
  shows "0 < x \<Longrightarrow> \<not> x \<le> 0"
  by (cases x) (auto simp add: le_zero_double zero_less_double)

lemma double_le_zero_not_pos:
  fixes x :: double
  shows "x \<le> 0 \<Longrightarrow> \<not> 0 < x"
  by (cases x) (auto simp add: le_zero_double zero_less_double)

lemma double_le_not_NaN:
  fixes x y :: double
  shows "x \<le> y \<Longrightarrow> x \<noteq> NaN \<and> y \<noteq> NaN"
  by (cases x; cases y) simp_all

lemma double_less_iff_not_le:
  fixes x y :: double
  shows "x \<noteq> NaN \<Longrightarrow> y \<noteq> NaN \<Longrightarrow> (x < y) = (\<not> y \<le> x)"
  by (cases x; cases y) (simp_all add: not_le min.commute)

lemma double_NaN_comparisons:
  fixes x :: double
  shows "\<not> x < NaN" "\<not> NaN < x" "\<not> x \<le> NaN" "\<not> NaN \<le> x"
  by (cases x; simp)+

lemma double_le_refl:
  fixes x :: double
  shows "(x \<le> x) = (x \<noteq> NaN)"
  by (cases x) simp_all

lemma double_minus_self:
  fixes x :: double
  shows "x - x = (if is_finite x then 0 else NaN)"
  by (cases x) (simp_all add: minus_double_def round_dyadic_def zero_double_def)

lemma round_dyadic_nonneg:
  assumes "0 \<le> M"
  shows "0 \<le> round_dyadic M e"
proof (cases "M = 0")
  case True
  then show ?thesis by (simp add: round_dyadic_def zero_le_double)
next
  case False
  with assms have pos: "0 < M" by simp
  have q: "0 \<le> \<bar>M\<bar> div 2 ^ n" for n :: nat
    by (simp add: pos_imp_zdiv_nonneg_iff)
  from pos q show ?thesis
    by (simp add: round_dyadic_def Let_def zero_le_double)
qed

text \<open>
  A difference that \<open>canWithdraw\<close> allows is not negative, and neither is the sum of a
  number that is not negative and a positive one. Either may be \<open>NaN\<close>.
\<close>

lemma double_minus_nonneg_or_NaN:
  fixes a b :: double
  assumes "a \<le> b"
  shows "0 \<le> b - a \<or> b - a = NaN"
proof (cases b)
  case (Finite mb eb)
  note b = this
  show ?thesis
  proof (cases a)
    case (Finite ma ea)
    with b assms have "0 \<le> mb * 2 ^ nat (eb - min eb ea) + - ma * 2 ^ nat (ea - min eb ea)"
      by (simp add: min.commute)
    then have "0 \<le> round_dyadic (mb * 2 ^ nat (eb - min eb ea) + - ma * 2 ^ nat (ea - min eb ea))
        (min eb ea)"
      by (rule round_dyadic_nonneg)
    with b Finite show ?thesis by (simp add: minus_double_def)
  qed (use b assms in \<open>simp_all add: minus_double_def zero_le_double\<close>)
qed (use assms in \<open>cases a; simp_all add: minus_double_def zero_le_double\<close>)+

lemma double_plus_nonneg_or_NaN:
  fixes a b c :: double
  assumes c: "0 \<le> c \<or> c = NaN" and a: "a \<le> b" "\<not> a \<le> 0"
  shows "0 \<le> c + a \<or> c + a = NaN"
proof (cases a)
  case (Finite ma ea)
  with a(2) have ma: "0 < ma" by (simp add: le_zero_double)
  show ?thesis
  proof (cases c)
    case (Finite mc ec)
    with c have "0 \<le> mc" by (simp add: zero_le_double)
    with ma have "0 \<le> mc * 2 ^ nat (ec - min ec ea) + ma * 2 ^ nat (ea - min ec ea)"
      by simp
    then have "0 \<le> round_dyadic (mc * 2 ^ nat (ec - min ec ea) + ma * 2 ^ nat (ea - min ec ea))
        (min ec ea)"
      by (rule round_dyadic_nonneg)
    with Finite \<open>a = Finite ma ea\<close> show ?thesis by simp
  qed (use c Finite in \<open>simp_all add: zero_le_double\<close>)
next
  case PosInf
  with c show ?thesis by (cases c) (simp_all add: zero_le_double)
next
  case NegInf
  with a(2) show ?thesis by (simp add: le_zero_double)
next
  case NaN
  with a(1) show ?thesis by simp
qed

section \<open>Properties of the account primitives\<close>

text \<open>
  C8 (as amended). For every number type, \<open>canWithdraw\<close> holds exactly when the amount is
  at most the balance. \<open>withdraw\<close> throws exactly when \<open>canWithdraw\<close> is false, and then
  leaves the account as it was; the error thrown is the built-in \<^verbatim>\<open>Error\<close> with the
  message \<^verbatim>\<open>Insufficient funds\<close>. Otherwise it throws nothing and sets the balance to the
  difference \<^verbatim>\<open>balance - amount\<close> of the number type.

  In binary64: withdrawing the whole balance succeeds and leaves the balance 0 when the
  balance is finite; it succeeds and leaves \<open>NaN\<close> when the balance is infinite; with the
  balance \<open>NaN\<close> every withdrawal throws. The value of the balance goes down by exactly
  the amount when the difference is exact.
\<close>

theorem canWithdraw_withdraw:
  fixes a :: "('n::{ord,minus}, 'm) account_scheme"
    and d :: "(double, 'k) account_scheme"
  shows "(canWithdraw a amt \<longleftrightarrow> amt \<le> balance a)
       \<and> (fst (withdraw a amt) \<noteq> None \<longleftrightarrow> \<not> canWithdraw a amt)
       \<and> (\<not> canWithdraw a amt \<longrightarrow> withdraw a amt = (Some (Error ''Insufficient funds''), a))
       \<and> (canWithdraw a amt \<longrightarrow> withdraw a amt = (None, a\<lparr>balance := balance a - amt\<rparr>))
       \<and> (is_finite (balance d) \<longrightarrow> withdraw d (balance d) = (None, d\<lparr>balance := 0\<rparr>))
       \<and> (balance d = PosInf \<or> balance d = NegInf \<longrightarrow>
            withdraw d (balance d) = (None, d\<lparr>balance := NaN\<rparr>))
       \<and> (balance d = NaN \<longrightarrow> withdraw d amt_d = (Some (Error ''Insufficient funds''), d))
       \<and> (canWithdraw d amt_d \<and> exact_difference (balance d) amt_d \<longrightarrow>
            fst (withdraw d amt_d) = None
          \<and> value_of (balance (snd (withdraw d amt_d))) = value_of (balance d) - value_of amt_d)"
proof -
  have "withdraw d (balance d) = (None, d\<lparr>balance := 0\<rparr>)" if "is_finite (balance d)"
  proof -
    from that have "balance d \<noteq> NaN" by (cases "balance d") simp_all
    with that show ?thesis
      by (simp add: withdraw_def canWithdraw_def double_le_refl double_minus_self)
  qed
  moreover have "withdraw d (balance d) = (None, d\<lparr>balance := NaN\<rparr>)"
    if "balance d = PosInf \<or> balance d = NegInf"
    using that by (auto simp add: withdraw_def canWithdraw_def minus_double_def)
  moreover have "withdraw d amt_d = (Some (Error ''Insufficient funds''), d)"
    if "balance d = NaN"
    using that by (simp add: withdraw_def canWithdraw_def double_NaN_comparisons)
  moreover have "fst (withdraw d amt_d) = None
      \<and> value_of (balance (snd (withdraw d amt_d))) = value_of (balance d) - value_of amt_d"
    if "canWithdraw d amt_d \<and> exact_difference (balance d) amt_d"
    using that by (simp add: withdraw_def exact_difference_def)
  ultimately show ?thesis
    by (simp add: canWithdraw_def withdraw_def)
qed

text \<open>
  The account of the tests of the entity, with the balance 1000: the overdraft, a covered
  withdrawal, and in binary64 the whole balance, the infinite balance and \<open>NaN\<close>.
\<close>

theorem canWithdraw_withdraw_witness:
  "\<not> canWithdraw (acct_plain ''1234567890123456'' (1000 :: rat)) 2000
   \<and> withdraw (acct_plain ''1234567890123456'' (1000 :: rat)) 2000
       = (Some (Error ''Insufficient funds''), acct_plain ''1234567890123456'' 1000)
   \<and> canWithdraw (acct_plain ''1234567890123456'' (1000 :: rat)) 500
   \<and> withdraw (acct_plain ''1234567890123456'' (1000 :: rat)) 500
       = (None, acct_plain ''1234567890123456'' 500)
   \<and> is_finite (literal 1000 1)
   \<and> withdraw (acct_plain ''1234567890123456'' (literal 1000 1)) (literal 1000 1)
       = (None, acct_plain ''1234567890123456'' 0)
   \<and> withdraw (acct_plain ''1234567890123456'' PosInf) PosInf
       = (None, acct_plain ''1234567890123456'' NaN)
   \<and> withdraw (acct_plain ''1234567890123456'' NaN) (literal 500 1)
       = (Some (Error ''Insufficient funds''), acct_plain ''1234567890123456'' NaN)
   \<and> canWithdraw (acct_plain ''1234567890123456'' (literal 1000 1)) (literal 500 1)
   \<and> exact_difference (literal 1000 1) (literal 500 1)
   \<and> fst (withdraw (acct_plain ''1234567890123456'' (literal 1000 1)) (literal 500 1)) = None
   \<and> value_of (balance (snd (withdraw (acct_plain ''1234567890123456'' (literal 1000 1))
        (literal 500 1)))) = 500"
proof -
  have numbers: "is_finite (literal 1000 1)" "literal 500 1 \<le> literal 1000 1"
    "exact_difference (literal 1000 1) (literal 500 1)"
    "value_of (literal 1000 1) = 1000" "value_of (literal 500 1) = 500"
    by code_simp+
  note overdraft = canWithdraw_withdraw
    [where a = "acct_plain ''1234567890123456'' (1000 :: rat)" and amt = 2000]
  note covered = canWithdraw_withdraw
    [where a = "acct_plain ''1234567890123456'' (1000 :: rat)" and amt = 500
       and d = "acct_plain ''1234567890123456'' (literal 1000 1)" and amt_d = "literal 500 1"]
  note infinite = canWithdraw_withdraw
    [where d = "acct_plain ''1234567890123456'' PosInf"]
  note not_a_number = canWithdraw_withdraw
    [where d = "acct_plain ''1234567890123456'' NaN" and amt_d = "literal 500 1"]
  have a: "\<not> canWithdraw (acct_plain ''1234567890123456'' (1000 :: rat)) 2000"
    "withdraw (acct_plain ''1234567890123456'' (1000 :: rat)) 2000
       = (Some (Error ''Insufficient funds''), acct_plain ''1234567890123456'' 1000)"
    using overdraft [THEN conjunct1] overdraft [THEN conjunct2, THEN conjunct2, THEN conjunct1]
    by simp_all
  have b: "canWithdraw (acct_plain ''1234567890123456'' (1000 :: rat)) 500"
    "withdraw (acct_plain ''1234567890123456'' (1000 :: rat)) 500
       = (None, acct_plain ''1234567890123456'' 500)"
    using covered [THEN conjunct1]
      covered [THEN conjunct2, THEN conjunct2, THEN conjunct2, THEN conjunct1]
    by simp_all
  have c: "withdraw (acct_plain ''1234567890123456'' (literal 1000 1)) (literal 1000 1)
       = (None, acct_plain ''1234567890123456'' 0)"
    using covered [THEN conjunct2, THEN conjunct2, THEN conjunct2, THEN conjunct2,
        THEN conjunct1] numbers(1)
    by simp
  have d: "withdraw (acct_plain ''1234567890123456'' PosInf) PosInf
       = (None, acct_plain ''1234567890123456'' NaN)"
    using infinite [THEN conjunct2, THEN conjunct2, THEN conjunct2, THEN conjunct2,
        THEN conjunct2, THEN conjunct1]
    by simp
  have e: "withdraw (acct_plain ''1234567890123456'' NaN) (literal 500 1)
       = (Some (Error ''Insufficient funds''), acct_plain ''1234567890123456'' NaN)"
    using not_a_number [THEN conjunct2, THEN conjunct2, THEN conjunct2, THEN conjunct2,
        THEN conjunct2, THEN conjunct2, THEN conjunct1]
    by simp
  have f: "canWithdraw (acct_plain ''1234567890123456'' (literal 1000 1)) (literal 500 1)"
    using canWithdraw_withdraw
        [where a = "acct_plain ''1234567890123456'' (literal 1000 1)" and amt = "literal 500 1",
          THEN conjunct1]
      numbers(2)
    by simp
  have g: "fst (withdraw (acct_plain ''1234567890123456'' (literal 1000 1)) (literal 500 1)) = None"
    "value_of (balance (snd (withdraw (acct_plain ''1234567890123456'' (literal 1000 1))
        (literal 500 1)))) = 500"
    using covered [THEN conjunct2, THEN conjunct2, THEN conjunct2, THEN conjunct2,
        THEN conjunct2, THEN conjunct2, THEN conjunct2] f numbers(3,4,5)
    by simp_all
  from a b numbers(1,3) c d e f g show ?thesis by simp
qed

text \<open>
  C8 as stated fails in three respects. The error that \<open>withdraw\<close> throws is not the
  \<open>InsufficientFundsError\<close> of the service, which carries the account number, the amount
  and the balance, but the built-in \<^verbatim>\<open>Error\<close>. In binary64, an account with the balance
  \<^verbatim>\<open>Infinity\<close> passes the schema, and withdrawing the whole balance succeeds and leaves
  \<open>NaN\<close>, not 0. And the balance does not always go down by exactly the amount: from 901.43
  the withdrawal of 22.95 leaves the binary64 number nearest to the difference, which is
  not the difference.
\<close>

theorem withdraw_counterexample:
  "\<not> canWithdraw (acct_plain ''1234567890123456'' (1000 :: rat)) 2000
   \<and> fst (withdraw (acct_plain ''1234567890123456'' (1000 :: rat)) 2000)
       = Some (Error ''Insufficient funds'')
   \<and> Error ''Insufficient funds'' \<noteq> InsufficientFundsError ''1234567890123456'' (2000 :: rat) 1000
   \<and> AccountEntity (acct_plain ''1234567890123456'' PosInf) = Inr (acct_plain ''1234567890123456'' PosInf)
   \<and> canWithdraw (acct_plain ''1234567890123456'' PosInf) PosInf
   \<and> fst (withdraw (acct_plain ''1234567890123456'' PosInf) PosInf) = None
   \<and> balance (snd (withdraw (acct_plain ''1234567890123456'' PosInf) PosInf)) = NaN
   \<and> NaN \<noteq> (0 :: double)
   \<and> AccountEntity (acct_plain ''1234567890123456'' (literal 90143 100))
       = Inr (acct_plain ''1234567890123456'' (literal 90143 100))
   \<and> canWithdraw (acct_plain ''1234567890123456'' (literal 90143 100)) (literal 2295 100)
   \<and> fst (withdraw (acct_plain ''1234567890123456'' (literal 90143 100)) (literal 2295 100)) = None
   \<and> value_of (balance (snd (withdraw (acct_plain ''1234567890123456'' (literal 90143 100))
        (literal 2295 100))))
       \<noteq> value_of (literal 90143 100) - value_of (literal 2295 100)"
  by code_simp

text \<open>
  C10. \<open>deposit\<close> has no error result: for every amount, zero and negative ones too, it
  sets the balance to the balance plus the amount and changes nothing else. A negative
  amount that exceeds the balance in magnitude therefore leaves a negative balance.
\<close>

theorem deposit_unconditional:
  fixes a :: "('n::ordered_ab_group_add, 'm) account_scheme"
  shows "deposit a amt = a\<lparr>balance := balance a + amt\<rparr>
       \<and> balance (deposit a amt) = balance a + amt
       \<and> accountNumber (deposit a amt) = accountNumber a
       \<and> account.more (deposit a amt) = account.more a
       \<and> (amt < - balance a \<longrightarrow> balance (deposit a amt) < 0)"
proof -
  have "balance a + amt < 0" if "amt < - balance a"
  proof -
    from that have "balance a + amt < balance a + (- balance a)"
      by (rule add_strict_left_mono)
    then show ?thesis by simp
  qed
  then show ?thesis by (simp add: deposit_def)
qed

theorem deposit_unconditional_witness:
  "(-1500 :: rat) < - balance \<lparr>accountNumber = ''1234567890123456'', balance = 1000 :: rat\<rparr>
   \<and> deposit \<lparr>accountNumber = ''1234567890123456'', balance = 1000 :: rat\<rparr> (-1500)
       = \<lparr>accountNumber = ''1234567890123456'', balance = -500\<rparr>
   \<and> balance (deposit \<lparr>accountNumber = ''1234567890123456'', balance = 1000 :: rat\<rparr> (-1500)) < 0"
  using deposit_unconditional [of "\<lparr>accountNumber = ''1234567890123456'', balance = 1000 :: rat\<rparr>" "-1500"]
  by simp

section \<open>Properties of the service\<close>

text \<open>
  C1 (as amended). When the source and the destination exist, their companies match the
  transaction's (company-aware service) and the source balance is at least the amount,
  \<open>processTransaction\<close> throws nothing, no other account changes and the accounts stay in
  their order. If source and destination are two different accounts, the source balance
  becomes the balance less the amount and the destination balance becomes the balance
  plus the amount, as the number type computes them. In binary64, when that difference and
  that sum are exact, the source balance decreases by exactly the amount, the destination
  balance increases by exactly the amount and their sum is what it was. If source and
  destination are the same account, the amount is subtracted from its balance and added
  to it again.
\<close>

theorem processTransaction_moves_amount:
  fixes accounts :: "('n::{ord,minus,plus}) company_account ledger"
    and accounts_p :: "'n account ledger"
    and accounts_d :: "double company_account ledger"
    and accounts_pd :: "double account ledger"
  shows "(map_of accounts (fromAccount t) = Some fa \<and> map_of accounts (toAccount t) = Some ta
           \<and> company_account.companyId fa = company_transaction.companyId t
           \<and> company_account.companyId ta = company_transaction.companyId t
           \<and> amount t \<le> balance fa
          \<longrightarrow> (\<exists>accounts'. processTransaction accounts t = (None, accounts')
                 \<and> moved accounts accounts' (fromAccount t) fa (toAccount t) ta (amount t)))
       \<and> (map_of accounts_p (fromAccount t_p) = Some fa_p
           \<and> map_of accounts_p (toAccount t_p) = Some ta_p
           \<and> amount t_p \<le> balance fa_p
          \<longrightarrow> (\<exists>accounts'. processTransaction_plain accounts_p t_p = (None, accounts')
                 \<and> moved accounts_p accounts' (fromAccount t_p) fa_p (toAccount t_p) ta_p
                      (amount t_p)))
       \<and> (map_of accounts_d (fromAccount t_d) = Some fa_d
           \<and> map_of accounts_d (toAccount t_d) = Some ta_d
           \<and> company_account.companyId fa_d = company_transaction.companyId t_d
           \<and> company_account.companyId ta_d = company_transaction.companyId t_d
           \<and> amount t_d \<le> balance fa_d
           \<and> fromAccount t_d \<noteq> toAccount t_d
           \<and> exact_difference (balance fa_d) (amount t_d)
           \<and> exact_sum (balance ta_d) (amount t_d)
          \<longrightarrow> (\<exists>accounts' fa' ta'. processTransaction accounts_d t_d = (None, accounts')
                 \<and> map_of accounts' (fromAccount t_d) = Some fa'
                 \<and> map_of accounts' (toAccount t_d) = Some ta'
                 \<and> moved_exactly fa_d ta_d fa' ta' (amount t_d)))
       \<and> (map_of accounts_pd (fromAccount t_pd) = Some fa_pd
           \<and> map_of accounts_pd (toAccount t_pd) = Some ta_pd
           \<and> amount t_pd \<le> balance fa_pd
           \<and> fromAccount t_pd \<noteq> toAccount t_pd
           \<and> exact_difference (balance fa_pd) (amount t_pd)
           \<and> exact_sum (balance ta_pd) (amount t_pd)
          \<longrightarrow> (\<exists>accounts' fa' ta'. processTransaction_plain accounts_pd t_pd = (None, accounts')
                 \<and> map_of accounts' (fromAccount t_pd) = Some fa'
                 \<and> map_of accounts' (toAccount t_pd) = Some ta'
                 \<and> moved_exactly fa_pd ta_pd fa' ta' (amount t_pd)))"
proof -
  have company: "\<exists>accounts'. processTransaction l t = (None, accounts')
      \<and> moved l accounts' (fromAccount t) fa (toAccount t) ta (amount t)"
    if "map_of l (fromAccount t) = Some fa \<and> map_of l (toAccount t) = Some ta
           \<and> company_account.companyId fa = company_transaction.companyId t
           \<and> company_account.companyId ta = company_transaction.companyId t
           \<and> amount t \<le> balance fa"
    for l :: "('k::{ord,minus,plus}) company_account ledger" and t fa ta
  proof -
    from that have "processTransaction l t =
        withdraw_deposit l (fromAccount t) fa (toAccount t) ta (amount t)"
      by (simp add: processTransaction_def canWithdraw_def)
    moreover have "canWithdraw fa (amount t)"
      using that by (simp add: canWithdraw_def)
    ultimately show ?thesis
      using that withdraw_deposit_moved [of l "fromAccount t" fa "toAccount t" ta "amount t"]
      by simp
  qed
  have plain: "\<exists>accounts'. processTransaction_plain l t = (None, accounts')
      \<and> moved l accounts' (fromAccount t) fa (toAccount t) ta (amount t)"
    if "map_of l (fromAccount t) = Some fa \<and> map_of l (toAccount t) = Some ta
           \<and> amount t \<le> balance fa"
    for l :: "('k::{ord,minus,plus}) account ledger" and t fa ta
  proof -
    from that have "processTransaction_plain l t =
        withdraw_deposit l (fromAccount t) fa (toAccount t) ta (amount t)"
      by (simp add: processTransaction_plain_def canWithdraw_def)
    moreover have "canWithdraw fa (amount t)"
      using that by (simp add: canWithdraw_def)
    ultimately show ?thesis
      using that withdraw_deposit_moved [of l "fromAccount t" fa "toAccount t" ta "amount t"]
      by simp
  qed
  have exact: "moved_exactly fa ta (fa\<lparr>balance := balance fa - amt\<rparr>)
      (ta\<lparr>balance := balance ta + amt\<rparr>) amt"
    if "exact_difference (balance fa) amt" "exact_sum (balance ta) amt"
    for fa ta :: "(double, 'z) account_scheme" and amt
    using that by (simp add: exact_difference_def exact_sum_def)
  have company_d: "\<exists>accounts' fa' ta'. processTransaction accounts_d t_d = (None, accounts')
                 \<and> map_of accounts' (fromAccount t_d) = Some fa'
                 \<and> map_of accounts' (toAccount t_d) = Some ta'
                 \<and> moved_exactly fa_d ta_d fa' ta' (amount t_d)"
    if h: "map_of accounts_d (fromAccount t_d) = Some fa_d
           \<and> map_of accounts_d (toAccount t_d) = Some ta_d
           \<and> company_account.companyId fa_d = company_transaction.companyId t_d
           \<and> company_account.companyId ta_d = company_transaction.companyId t_d
           \<and> amount t_d \<le> balance fa_d
           \<and> fromAccount t_d \<noteq> toAccount t_d
           \<and> exact_difference (balance fa_d) (amount t_d)
           \<and> exact_sum (balance ta_d) (amount t_d)"
  proof -
    from h company [of accounts_d t_d fa_d ta_d] obtain accounts' where
      "processTransaction accounts_d t_d = (None, accounts')"
      "map_of accounts' (fromAccount t_d) = Some (fa_d\<lparr>balance := balance fa_d - amount t_d\<rparr>)"
      "map_of accounts' (toAccount t_d) = Some (ta_d\<lparr>balance := balance ta_d + amount t_d\<rparr>)"
      by auto
    moreover from h have "moved_exactly fa_d ta_d (fa_d\<lparr>balance := balance fa_d - amount t_d\<rparr>)
        (ta_d\<lparr>balance := balance ta_d + amount t_d\<rparr>) (amount t_d)"
      by (intro exact) simp_all
    ultimately show ?thesis by blast
  qed
  have plain_d: "\<exists>accounts' fa' ta'. processTransaction_plain accounts_pd t_pd = (None, accounts')
                 \<and> map_of accounts' (fromAccount t_pd) = Some fa'
                 \<and> map_of accounts' (toAccount t_pd) = Some ta'
                 \<and> moved_exactly fa_pd ta_pd fa' ta' (amount t_pd)"
    if h: "map_of accounts_pd (fromAccount t_pd) = Some fa_pd
           \<and> map_of accounts_pd (toAccount t_pd) = Some ta_pd
           \<and> amount t_pd \<le> balance fa_pd
           \<and> fromAccount t_pd \<noteq> toAccount t_pd
           \<and> exact_difference (balance fa_pd) (amount t_pd)
           \<and> exact_sum (balance ta_pd) (amount t_pd)"
  proof -
    from h plain [of accounts_pd t_pd fa_pd ta_pd] obtain accounts' where
      "processTransaction_plain accounts_pd t_pd = (None, accounts')"
      "map_of accounts' (fromAccount t_pd) = Some (fa_pd\<lparr>balance := balance fa_pd - amount t_pd\<rparr>)"
      "map_of accounts' (toAccount t_pd) = Some (ta_pd\<lparr>balance := balance ta_pd + amount t_pd\<rparr>)"
      by auto
    moreover from h have "moved_exactly fa_pd ta_pd (fa_pd\<lparr>balance := balance fa_pd - amount t_pd\<rparr>)
        (ta_pd\<lparr>balance := balance ta_pd + amount t_pd\<rparr>) (amount t_pd)"
      by (intro exact) simp_all
    ultimately show ?thesis by blast
  qed
  from company [of accounts t fa ta] plain [of accounts_p t_p fa_p ta_p] company_d plain_d
  show ?thesis by blast
qed

text \<open>
  The first test of \<^verbatim>\<open>processTransaction\<close> in both suites, 500 from the account with 5000 to
  the account with 550: in exact arithmetic, and in binary64, where both results are exact.
\<close>

theorem processTransaction_moves_amount_witness:
  "map_of (BankingService test_accounts) ''1111234522226789''
       = Some (acct ''1111234522226789'' 5000 ''alpha-sales'')
   \<and> map_of (BankingService test_accounts) ''2222123433331212''
       = Some (acct ''2222123433331212'' 550 ''alpha-sales'')
   \<and> fst (processTransaction (BankingService test_accounts)
        (tx ''1111234522226789'' ''2222123433331212'' 500 ''alpha-sales'')) = None
   \<and> map_of (snd (processTransaction (BankingService test_accounts)
        (tx ''1111234522226789'' ''2222123433331212'' 500 ''alpha-sales''))) ''1111234522226789''
       = Some (acct ''1111234522226789'' 4500 ''alpha-sales'')
   \<and> map_of (snd (processTransaction (BankingService test_accounts)
        (tx ''1111234522226789'' ''2222123433331212'' 500 ''alpha-sales''))) ''2222123433331212''
       = Some (acct ''2222123433331212'' 1050 ''alpha-sales'')
   \<and> fst (processTransaction_plain (BankingService test_accounts_plain)
        (tx_plain ''1111234522226789'' ''2222123433331212'' 500)) = None
   \<and> map_of (snd (processTransaction_plain (BankingService test_accounts_plain)
        (tx_plain ''1111234522226789'' ''2222123433331212'' 500))) ''1111234522226789''
       = Some (acct_plain ''1111234522226789'' 4500)
   \<and> map_of (snd (processTransaction_plain (BankingService test_accounts_plain)
        (tx_plain ''1111234522226789'' ''2222123433331212'' 500))) ''2222123433331212''
       = Some (acct_plain ''2222123433331212'' 1050)
   \<and> exact_difference (literal 5000 1) (literal 500 1)
   \<and> exact_sum (literal 550 1) (literal 500 1)
   \<and> fst (processTransaction (BankingService test_accounts_binary64)
        (tx ''1111234522226789'' ''2222123433331212'' (literal 500 1) ''alpha-sales'')) = None
   \<and> map_option (\<lambda>a. value_of (balance a))
        (map_of (snd (processTransaction (BankingService test_accounts_binary64)
          (tx ''1111234522226789'' ''2222123433331212'' (literal 500 1) ''alpha-sales'')))
          ''1111234522226789'') = Some 4500
   \<and> map_option (\<lambda>a. value_of (balance a))
        (map_of (snd (processTransaction (BankingService test_accounts_binary64)
          (tx ''1111234522226789'' ''2222123433331212'' (literal 500 1) ''alpha-sales'')))
          ''2222123433331212'') = Some 1050
   \<and> fst (processTransaction_plain
        (BankingService [acct_plain ''1111234522226789'' (literal 5000 1),
           acct_plain ''2222123433331212'' (literal 550 1)])
        (tx_plain ''1111234522226789'' ''2222123433331212'' (literal 500 1))) = None
   \<and> map_option (\<lambda>a. value_of (balance a))
        (map_of (snd (processTransaction_plain
          (BankingService [acct_plain ''1111234522226789'' (literal 5000 1),
             acct_plain ''2222123433331212'' (literal 550 1)])
          (tx_plain ''1111234522226789'' ''2222123433331212'' (literal 500 1))))
          ''1111234522226789'') = Some 4500"
proof -
  note inst = processTransaction_moves_amount
    [where accounts = "BankingService test_accounts"
       and t = "tx ''1111234522226789'' ''2222123433331212'' 500 ''alpha-sales''"
       and fa = "acct ''1111234522226789'' 5000 ''alpha-sales''"
       and ta = "acct ''2222123433331212'' 550 ''alpha-sales''"
       and accounts_p = "BankingService test_accounts_plain"
       and t_p = "tx_plain ''1111234522226789'' ''2222123433331212'' 500"
       and fa_p = "acct_plain ''1111234522226789'' 5000"
       and ta_p = "acct_plain ''2222123433331212'' 550"
       and accounts_d = "BankingService test_accounts_binary64"
       and t_d = "tx ''1111234522226789'' ''2222123433331212'' (literal 500 1) ''alpha-sales''"
       and fa_d = "acct ''1111234522226789'' (literal 5000 1) ''alpha-sales''"
       and ta_d = "acct ''2222123433331212'' (literal 550 1) ''alpha-sales''"
       and accounts_pd = "BankingService [acct_plain ''1111234522226789'' (literal 5000 1),
           acct_plain ''2222123433331212'' (literal 550 1)]"
       and t_pd = "tx_plain ''1111234522226789'' ''2222123433331212'' (literal 500 1)"
       and fa_pd = "acct_plain ''1111234522226789'' (literal 5000 1)"
       and ta_pd = "acct_plain ''2222123433331212'' (literal 550 1)"]
  have numbers: "literal 500 1 \<le> literal 5000 1"
    "exact_difference (literal 5000 1) (literal 500 1)"
    "exact_sum (literal 550 1) (literal 500 1)"
    "value_of (literal 5000 1) = 5000" "value_of (literal 550 1) = 550"
    "value_of (literal 500 1) = 500"
    by code_simp+
  have ledger_d: "BankingService test_accounts_binary64 =
     [(''1111234522226789'', acct ''1111234522226789'' (literal 5000 1) ''alpha-sales''),
      (''1111234522221234'', acct ''1111234522221234'' (literal 10000 1) ''alpha-sales''),
      (''2222123433331212'', acct ''2222123433331212'' (literal 550 1) ''alpha-sales''),
      (''9999999999999999'', acct ''9999999999999999'' (literal 1000 1) ''beta-sales'')]"
    by (simp add: BankingService_def test_accounts_binary64_def)
  have ledger_pd: "BankingService [acct_plain ''1111234522226789'' (literal 5000 1),
           acct_plain ''2222123433331212'' (literal 550 1)] =
     [(''1111234522226789'', acct_plain ''1111234522226789'' (literal 5000 1)),
      (''2222123433331212'', acct_plain ''2222123433331212'' (literal 550 1))]"
    by (simp add: BankingService_def)
  note company = inst [THEN conjunct1]
    and plain = inst [THEN conjunct2, THEN conjunct1]
    and company_d = inst [THEN conjunct2, THEN conjunct2, THEN conjunct1]
    and plain_d = inst [THEN conjunct2, THEN conjunct2, THEN conjunct2]
  from company obtain l1 where l1:
    "processTransaction (BankingService test_accounts)
        (tx ''1111234522226789'' ''2222123433331212'' 500 ''alpha-sales'') = (None, l1)"
    "map_of l1 ''1111234522226789'' = Some (acct ''1111234522226789'' 4500 ''alpha-sales'')"
    "map_of l1 ''2222123433331212'' = Some (acct ''2222123433331212'' 1050 ''alpha-sales'')"
    unfolding BankingService_test_accounts by simp blast
  from plain obtain l2 where l2:
    "processTransaction_plain (BankingService test_accounts_plain)
        (tx_plain ''1111234522226789'' ''2222123433331212'' 500) = (None, l2)"
    "map_of l2 ''1111234522226789'' = Some (acct_plain ''1111234522226789'' 4500)"
    "map_of l2 ''2222123433331212'' = Some (acct_plain ''2222123433331212'' 1050)"
    unfolding BankingService_test_accounts_plain by simp blast
  have "\<exists>l3 fa' ta'.
    processTransaction (BankingService test_accounts_binary64)
        (tx ''1111234522226789'' ''2222123433331212'' (literal 500 1) ''alpha-sales'') = (None, l3)
    \<and> map_of l3 ''1111234522226789'' = Some fa' \<and> map_of l3 ''2222123433331212'' = Some ta'
    \<and> value_of (balance fa') = 4500 \<and> value_of (balance ta') = 1050"
    using company_d numbers unfolding ledger_d by simp blast
  then obtain l3 fa3 ta3 where l3:
    "processTransaction (BankingService test_accounts_binary64)
        (tx ''1111234522226789'' ''2222123433331212'' (literal 500 1) ''alpha-sales'') = (None, l3)"
    "map_of l3 ''1111234522226789'' = Some fa3" "map_of l3 ''2222123433331212'' = Some ta3"
    "value_of (balance fa3) = 4500" "value_of (balance ta3) = 1050"
    by blast
  have "\<exists>l4 fa' ta'.
    processTransaction_plain (BankingService [acct_plain ''1111234522226789'' (literal 5000 1),
           acct_plain ''2222123433331212'' (literal 550 1)])
        (tx_plain ''1111234522226789'' ''2222123433331212'' (literal 500 1)) = (None, l4)
    \<and> map_of l4 ''1111234522226789'' = Some fa' \<and> map_of l4 ''2222123433331212'' = Some ta'
    \<and> value_of (balance fa') = 4500 \<and> value_of (balance ta') = 1050"
    using plain_d numbers unfolding ledger_pd by simp blast
  then obtain l4 fa4 where l4:
    "processTransaction_plain (BankingService [acct_plain ''1111234522226789'' (literal 5000 1),
           acct_plain ''2222123433331212'' (literal 550 1)])
        (tx_plain ''1111234522226789'' ''2222123433331212'' (literal 500 1)) = (None, l4)"
    "map_of l4 ''1111234522226789'' = Some fa4"
    "value_of (balance fa4) = 4500"
    by blast
  show ?thesis
    unfolding l1 l2 l3 l4
    using l1(2,3) l2(2,3) l3(2-5) l4(2,3) numbers(2,3)
    by (simp add: BankingService_test_accounts)
qed

text \<open>
  C1 as stated fails for a transfer from an account to itself, which the transaction
  schema accepts: account \<^verbatim>\<open>1111234522226789\<close> exists with balance 5000, the companies match,
  the amount 500 is positive and covered, the call throws nothing, and the balance of the
  source is 5000 afterwards, not 4500.

  It also fails in binary64 where a result is rounded. With 901.43 in the source, 30.59 in
  the destination and the amount 22.95, the source does not end at the number nearest to
  878.48 and the two balances no longer add up to what they did. With 1 in the source and
  \<open>2 ^ 53\<close> in the destination, the amount 1 leaves the destination as it was.
\<close>

theorem processTransaction_counterexample:
  "TransactionEntity (tx ''1111234522226789'' ''1111234522226789'' (500 :: rat) ''alpha-sales'')
     = Inr (tx ''1111234522226789'' ''1111234522226789'' 500 ''alpha-sales'')
   \<and> getAccountBalance (BankingService test_accounts) ''1111234522226789'' ''alpha-sales''
       = Inr 5000
   \<and> fst (processTransaction (BankingService test_accounts)
        (tx ''1111234522226789'' ''1111234522226789'' 500 ''alpha-sales'')) = None
   \<and> getAccountBalance (snd (processTransaction (BankingService test_accounts)
        (tx ''1111234522226789'' ''1111234522226789'' 500 ''alpha-sales'')))
          ''1111234522226789'' ''alpha-sales''
       = Inr 5000
   \<and> (5000 :: rat) \<noteq> 5000 - 500
   \<and> processTransaction
        (BankingService [acct ''1111234522226789'' (literal 90143 100) ''alpha-sales'',
           acct ''2222123433331212'' (literal 3059 100) ''alpha-sales''])
        (tx ''1111234522226789'' ''2222123433331212'' (literal 2295 100) ''alpha-sales'')
       = (None,
          [(''1111234522226789'',
            acct ''1111234522226789'' (Finite 7727191798149283 (- 43)) ''alpha-sales''),
           (''2222123433331212'',
            acct ''2222123433331212'' (Finite 7535085126544261 (- 47)) ''alpha-sales'')])
   \<and> Finite 7727191798149283 (- 43) \<noteq> literal 87848 100
   \<and> value_of (Finite 7727191798149283 (- 43))
       \<noteq> value_of (literal 90143 100) - value_of (literal 2295 100)
   \<and> value_of (Finite 7727191798149283 (- 43)) + value_of (Finite 7535085126544261 (- 47))
       \<noteq> value_of (literal 90143 100) + value_of (literal 3059 100)
   \<and> Finite 7727191798149283 (- 43) + Finite 7535085126544261 (- 47)
       \<noteq> literal 90143 100 + literal 3059 100
   \<and> processTransaction
        (BankingService [acct ''1111234522226789'' (literal 1 1) ''alpha-sales'',
           acct ''2222123433331212'' (literal 9007199254740992 1) ''alpha-sales''])
        (tx ''1111234522226789'' ''2222123433331212'' (literal 1 1) ''alpha-sales'')
       = (None,
          [(''1111234522226789'', acct ''1111234522226789'' 0 ''alpha-sales''),
           (''2222123433331212'',
            acct ''2222123433331212'' (literal 9007199254740992 1) ''alpha-sales'')])"
proof -
  have self: "TransactionEntity (tx ''1111234522226789'' ''1111234522226789'' (500 :: rat) ''alpha-sales'')
     = Inr (tx ''1111234522226789'' ''1111234522226789'' 500 ''alpha-sales'')
   \<and> getAccountBalance (BankingService test_accounts) ''1111234522226789'' ''alpha-sales''
       = Inr 5000
   \<and> fst (processTransaction (BankingService test_accounts)
        (tx ''1111234522226789'' ''1111234522226789'' 500 ''alpha-sales'')) = None
   \<and> getAccountBalance (snd (processTransaction (BankingService test_accounts)
        (tx ''1111234522226789'' ''1111234522226789'' 500 ''alpha-sales'')))
          ''1111234522226789'' ''alpha-sales''
       = Inr 5000
   \<and> (5000 :: rat) \<noteq> 5000 - 500"
    by (simp add: BankingService_test_accounts processTransaction_def canWithdraw_def
        withdraw_deposit_def withdraw_def deposit_def getAccountBalance_def
        TransactionEntity_def TransactionSchema_def accountNumber_ok_def digits_regex_def
        isDigit_def)
  have rounded: "processTransaction
        (BankingService [acct ''1111234522226789'' (literal 90143 100) ''alpha-sales'',
           acct ''2222123433331212'' (literal 3059 100) ''alpha-sales''])
        (tx ''1111234522226789'' ''2222123433331212'' (literal 2295 100) ''alpha-sales'')
       = (None,
          [(''1111234522226789'',
            acct ''1111234522226789'' (Finite 7727191798149283 (- 43)) ''alpha-sales''),
           (''2222123433331212'',
            acct ''2222123433331212'' (Finite 7535085126544261 (- 47)) ''alpha-sales'')])"
    "Finite 7727191798149283 (- 43) \<noteq> literal 87848 100"
    "value_of (Finite 7727191798149283 (- 43))
       \<noteq> value_of (literal 90143 100) - value_of (literal 2295 100)"
    "value_of (Finite 7727191798149283 (- 43)) + value_of (Finite 7535085126544261 (- 47))
       \<noteq> value_of (literal 90143 100) + value_of (literal 3059 100)"
    "Finite 7727191798149283 (- 43) + Finite 7535085126544261 (- 47)
       \<noteq> literal 90143 100 + literal 3059 100"
    by code_simp+
  have absorbed: "processTransaction
        (BankingService [acct ''1111234522226789'' (literal 1 1) ''alpha-sales'',
           acct ''2222123433331212'' (literal 9007199254740992 1) ''alpha-sales''])
        (tx ''1111234522226789'' ''2222123433331212'' (literal 1 1) ''alpha-sales'')
       = (None,
          [(''1111234522226789'', acct ''1111234522226789'' 0 ''alpha-sales''),
           (''2222123433331212'',
            acct ''2222123433331212'' (literal 9007199254740992 1) ''alpha-sales'')])"
    by code_simp
  from self rounded absorbed show ?thesis by (simp only: simp_thms)
qed

text \<open>
  C2. \<open>processTransaction\<close> checks existence first, then the companies, then the funds:
  a missing account is reported whatever the companies and the balance are, and a company
  mismatch is reported whatever the balance is. The first check that fails decides the
  error, and whenever the call throws, the ledger after the call is the ledger before it.
\<close>

theorem processTransaction_validation_order:
  fixes accounts :: "('n::{ord,minus,plus}) company_account ledger"
  shows "(map_of accounts (fromAccount t) = None \<longrightarrow>
            processTransaction accounts t = (Some (AccountNotFoundError (fromAccount t)), accounts))
       \<and> (map_of accounts (fromAccount t) = Some fa \<and> map_of accounts (toAccount t) = None \<longrightarrow>
            processTransaction accounts t = (Some (AccountNotFoundError (toAccount t)), accounts))
       \<and> (map_of accounts (fromAccount t) = Some fa \<and> map_of accounts (toAccount t) = Some ta
           \<and> (company_account.companyId fa \<noteq> company_transaction.companyId t
              \<or> company_account.companyId ta \<noteq> company_transaction.companyId t) \<longrightarrow>
            processTransaction accounts t =
              (Some (CompanyMismatchError (company_transaction.companyId t)
                 (if company_account.companyId fa \<noteq> company_transaction.companyId t
                  then company_account.companyId fa else company_account.companyId ta)), accounts))
       \<and> (map_of accounts (fromAccount t) = Some fa \<and> map_of accounts (toAccount t) = Some ta
           \<and> company_account.companyId fa = company_transaction.companyId t
           \<and> company_account.companyId ta = company_transaction.companyId t
           \<and> \<not> amount t \<le> balance fa \<longrightarrow>
            processTransaction accounts t =
              (Some (InsufficientFundsError (accountNumber fa) (amount t) (balance fa)), accounts))
       \<and> (fst (processTransaction accounts t) \<noteq> None \<longrightarrow>
            snd (processTransaction accounts t) = accounts)"
proof -
  have unchanged: "snd (processTransaction accounts t) = accounts"
    if thrown: "fst (processTransaction accounts t) \<noteq> None"
  proof (cases "map_of accounts (fromAccount t)")
    case None
    then show ?thesis by (simp add: processTransaction_def)
  next
    case (Some fa')
    note fa' = this
    show ?thesis
    proof (cases "map_of accounts (toAccount t)")
      case None
      with fa' show ?thesis by (simp add: processTransaction_def)
    next
      case (Some ta')
      show ?thesis
      proof (cases "canWithdraw fa' (amount t)")
        case False
        with fa' Some show ?thesis by (simp add: processTransaction_def)
      next
        case True
        then have "fst (withdraw_deposit accounts (fromAccount t) fa' (toAccount t) ta' (amount t))
            = None"
          by (simp add: withdraw_deposit_def withdraw_def)
        with thrown fa' Some True show ?thesis
          by (auto simp add: processTransaction_def split: if_splits)
      qed
    qed
  qed
  then show ?thesis
    by (simp add: processTransaction_def canWithdraw_def)
qed

text \<open>
  On the ledger of the tests: an absent source with a destination of another company and
  an amount no account covers is reported as not found; a source of another company with
  an amount it does not cover is reported as a company mismatch; and the overdraft of the
  tests is reported as such. The ledger is the same after each.
\<close>

theorem processTransaction_validation_order_witness:
  "processTransaction (BankingService test_accounts)
       (tx ''0000000000000000'' ''9999999999999999'' 99999 ''alpha-sales'')
     = (Some (AccountNotFoundError ''0000000000000000''), BankingService test_accounts)
   \<and> processTransaction (BankingService test_accounts)
       (tx ''9999999999999999'' ''0000000000000000'' 99999 ''alpha-sales'')
     = (Some (AccountNotFoundError ''0000000000000000''), BankingService test_accounts)
   \<and> processTransaction (BankingService test_accounts)
       (tx ''9999999999999999'' ''1111234522226789'' 99999 ''alpha-sales'')
     = (Some (CompanyMismatchError ''alpha-sales'' ''beta-sales''), BankingService test_accounts)
   \<and> processTransaction (BankingService test_accounts)
       (tx ''2222123433331212'' ''1111234522226789'' 1000 ''alpha-sales'')
     = (Some (InsufficientFundsError ''2222123433331212'' 1000 550), BankingService test_accounts)
   \<and> fst (processTransaction (BankingService test_accounts)
       (tx ''2222123433331212'' ''1111234522226789'' 1000 ''alpha-sales'')) \<noteq> None
   \<and> snd (processTransaction (BankingService test_accounts)
       (tx ''2222123433331212'' ''1111234522226789'' 1000 ''alpha-sales''))
     = BankingService test_accounts"
  using
    processTransaction_validation_order
      [where accounts = "BankingService test_accounts"
         and t = "tx ''0000000000000000'' ''9999999999999999'' 99999 ''alpha-sales''"]
    processTransaction_validation_order
      [where accounts = "BankingService test_accounts"
         and t = "tx ''9999999999999999'' ''0000000000000000'' 99999 ''alpha-sales''"
         and fa = "acct ''9999999999999999'' 1000 ''beta-sales''"]
    processTransaction_validation_order
      [where accounts = "BankingService test_accounts"
         and t = "tx ''9999999999999999'' ''1111234522226789'' 99999 ''alpha-sales''"
         and fa = "acct ''9999999999999999'' 1000 ''beta-sales''"
         and ta = "acct ''1111234522226789'' 5000 ''alpha-sales''"]
    processTransaction_validation_order
      [where accounts = "BankingService test_accounts"
         and t = "tx ''2222123433331212'' ''1111234522226789'' 1000 ''alpha-sales''"
         and fa = "acct ''2222123433331212'' 550 ''alpha-sales''"
         and ta = "acct ''1111234522226789'' 5000 ''alpha-sales''"]
  by (simp add: BankingService_test_accounts)

subsection \<open>Properties of the balances that every call keeps\<close>

lemma kept_update:
  assumes "\<forall>a \<in> set (getAllAccounts accounts). P (balance a)" and "P (balance v)"
  shows "\<forall>a \<in> set (getAllAccounts (AList.update k v accounts)). P (balance a)"
proof
  fix a assume "a \<in> set (getAllAccounts (AList.update k v accounts))"
  then obtain k' where "(k', a) \<in> set (AList.update k v accounts)"
    by (auto simp add: getAllAccounts_def)
  then have "(k', a) = (k, v) \<or> (k', a) \<in> set accounts"
    using set_update_subset [of k v accounts] by auto
  then show "P (balance a)"
  proof
    assume "(k', a) = (k, v)"
    with assms(2) show ?thesis by simp
  next
    assume "(k', a) \<in> set accounts"
    then have "a \<in> set (getAllAccounts accounts)"
      by (simp add: getAllAccounts_def image_iff) (metis snd_conv)
    with assms(1) show ?thesis by blast
  qed
qed

lemma kept_lookup:
  assumes "\<forall>a \<in> set (getAllAccounts accounts). P (balance a)" and "map_of accounts k = Some v"
  shows "P (balance v)"
proof -
  from assms(2) have "(k, v) \<in> set accounts" by (rule map_of_SomeD)
  then have "v \<in> set (getAllAccounts accounts)"
    by (simp add: getAllAccounts_def image_iff) (metis snd_conv)
  with assms(1) show ?thesis by blast
qed

lemma BankingService_kept_aux:
  assumes "\<forall>a \<in> set xs. P (balance a)" and "\<forall>a \<in> set (getAllAccounts acc). P (balance a)"
  shows "\<forall>a \<in> set (getAllAccounts
           (foldl (\<lambda>accounts a. AList.update (accountNumber a) a accounts) acc xs)). P (balance a)"
  using assms
proof (induction xs arbitrary: acc)
  case Nil
  then show ?case by simp
next
  case (Cons x xs)
  from Cons.prems(1) have x: "P (balance x)" and xs: "\<forall>a \<in> set xs. P (balance a)"
    by simp_all
  from Cons.prems(2) x
  have "\<forall>a \<in> set (getAllAccounts (AList.update (accountNumber x) x acc)). P (balance a)"
    by (rule kept_update)
  with xs have "\<forall>a \<in> set (getAllAccounts
      (foldl (\<lambda>accounts a. AList.update (accountNumber a) a accounts)
         (AList.update (accountNumber x) x acc) xs)). P (balance a)"
    by (rule Cons.IH)
  then show ?case by simp
qed

lemma AccountEntity_nonneg:
  fixes a :: "('n::{ord,zero}, 'm) account_scheme"
  assumes "AccountEntity a = Inr a"
  shows "0 \<le> balance a"
proof (rule ccontr)
  assume "\<not> 0 \<le> balance a"
  then have "AccountEntity a = Inl ZodError"
    by (simp add: AccountEntity_def AccountSchema_def)
  with assms show False by simp
qed

lemma TransactionEntity_positive:
  fixes t :: "('n::{ord,zero}, 'm) transaction_scheme"
  assumes "TransactionEntity t = Inr t"
  shows "0 < amount t"
proof (rule ccontr)
  assume "\<not> 0 < amount t"
  then have "TransactionEntity t = Inl ZodError"
    by (simp add: TransactionEntity_def TransactionSchema_def)
  with assms show False by simp
qed

lemma BankingService_kept:
  fixes initialAccounts :: "('n::{ord,zero}, 'm) account_scheme list"
  assumes "\<forall>a \<in> set initialAccounts. AccountEntity a = Inr a" and "\<And>b :: 'n. 0 \<le> b \<Longrightarrow> P b"
  shows "\<forall>a \<in> set (getAllAccounts (BankingService initialAccounts)). P (balance a)"
proof -
  have "\<forall>a \<in> set initialAccounts. P (balance a)"
    using assms AccountEntity_nonneg by blast
  then show ?thesis
    unfolding BankingService_def
    by (rule BankingService_kept_aux) (simp add: getAllAccounts_def)
qed

text \<open>
  The withdrawal and the deposit keep a property \<open>P\<close> of the balances, if a difference
  \<open>b - amt\<close> that \<open>canWithdraw\<close> allows has it, and a sum \<open>c + amt\<close> has it when \<open>c\<close> does.
\<close>

lemma withdraw_deposit_kept:
  fixes accounts :: "('n::{ord,minus,plus}, 'm) account_scheme ledger"
  assumes inv: "\<forall>a \<in> set (getAllAccounts accounts). P (balance a)"
    and fa: "map_of accounts fk = Some fa" and ta: "map_of accounts tk = Some ta"
    and sub: "\<And>b. amt \<le> b \<Longrightarrow> P (b - amt)"
    and add: "\<And>b c. amt \<le> b \<Longrightarrow> P c \<Longrightarrow> P (c + amt)"
  shows "\<forall>a \<in> set (getAllAccounts (snd (withdraw_deposit accounts fk fa tk ta amt))). P (balance a)"
proof (cases "canWithdraw fa amt")
  case False
  with fa inv show ?thesis by (simp add: withdraw_deposit_fail)
next
  case True
  then have le: "amt \<le> balance fa" by (simp add: canWithdraw_def)
  let ?fa' = "fa\<lparr>balance := balance fa - amt\<rparr>"
  let ?ta' = "if tk = fk then ?fa' else ta"
  from le have a: "P (balance ?fa')" by (simp add: sub)
  have "P (balance ta)" using inv ta by (rule kept_lookup)
  with a have "P (balance ?ta')" by simp
  with le have b: "P (balance (deposit ?ta' amt))"
    by (simp add: deposit_def add)
  have "\<forall>a \<in> set (getAllAccounts (AList.update fk ?fa' accounts)). P (balance a)"
    using inv a by (rule kept_update)
  then have "\<forall>a \<in> set (getAllAccounts (AList.update tk (deposit ?ta' amt)
               (AList.update fk ?fa' accounts))). P (balance a)"
    using b by (rule kept_update)
  moreover have "withdraw_deposit accounts fk fa tk ta amt
      = (None, AList.update tk (deposit ?ta' amt) (AList.update fk ?fa' accounts))"
    using True by (simp add: withdraw_deposit_def withdraw_def Let_def)
  ultimately show ?thesis by simp
qed

lemma processTransaction_kept:
  fixes accounts :: "('n::{ord,minus,plus}) company_account ledger"
  assumes inv: "\<forall>a \<in> set (getAllAccounts accounts). P (balance a)"
    and sub: "\<And>b. amount t \<le> b \<Longrightarrow> P (b - amount t)"
    and add: "\<And>b c. amount t \<le> b \<Longrightarrow> P c \<Longrightarrow> P (c + amount t)"
  shows "\<forall>a \<in> set (getAllAccounts (snd (processTransaction accounts t))). P (balance a)"
proof (cases "map_of accounts (fromAccount t)")
  case None
  with inv show ?thesis by (simp add: processTransaction_def)
next
  case (Some fa)
  note fa = this
  show ?thesis
  proof (cases "map_of accounts (toAccount t)")
    case None
    with inv fa show ?thesis by (simp add: processTransaction_def)
  next
    case (Some ta)
    from inv fa Some sub add
    have "\<forall>a \<in> set (getAllAccounts (snd (withdraw_deposit accounts (fromAccount t) fa
             (toAccount t) ta (amount t)))). P (balance a)"
      by (rule withdraw_deposit_kept)
    with inv fa Some show ?thesis by (simp add: processTransaction_def)
  qed
qed

lemma transfer_kept:
  fixes accounts :: "('n::{ord,zero,minus,plus}) company_account ledger"
  assumes inv: "\<forall>a \<in> set (getAllAccounts accounts). P (balance a)"
    and sub: "\<And>b. \<not> amt \<le> 0 \<Longrightarrow> amt \<le> b \<Longrightarrow> P (b - amt)"
    and add: "\<And>b c. \<not> amt \<le> 0 \<Longrightarrow> amt \<le> b \<Longrightarrow> P c \<Longrightarrow> P (c + amt)"
  shows "\<forall>a \<in> set (getAllAccounts (snd (transfer accounts fromNo toNo amt company))). P (balance a)"
proof (cases "amt \<le> 0")
  case True
  with inv show ?thesis by (simp add: transfer_def)
next
  case False
  show ?thesis
  proof (cases "map_of accounts fromNo")
    case None
    with inv False show ?thesis by (simp add: transfer_def)
  next
    case (Some fa)
    note fa = this
    show ?thesis
    proof (cases "map_of accounts toNo")
      case None
      with inv fa False show ?thesis by (simp add: transfer_def)
    next
      case (Some ta)
      from inv fa Some sub [OF False] add [OF False]
      have "\<forall>a \<in> set (getAllAccounts (snd (withdraw_deposit accounts fromNo fa toNo ta amt))).
              P (balance a)"
        by (rule withdraw_deposit_kept)
      with inv fa Some False show ?thesis by (simp add: transfer_def)
    qed
  qed
qed

lemma step_kept:
  fixes accounts :: "('n::{ord,zero,minus,plus}) company_account ledger"
  assumes inv: "\<forall>a \<in> set (getAllAccounts accounts). P (balance a)" and c: "constructed c"
    and pos: "\<And>a :: 'n. 0 < a \<Longrightarrow> \<not> a \<le> 0"
    and sub: "\<And>a b :: 'n. \<not> a \<le> 0 \<Longrightarrow> a \<le> b \<Longrightarrow> P (b - a)"
    and add: "\<And>a b c :: 'n. \<not> a \<le> 0 \<Longrightarrow> a \<le> b \<Longrightarrow> P c \<Longrightarrow> P (c + a)"
  shows "\<forall>a \<in> set (getAllAccounts (step accounts c)). P (balance a)"
proof (cases c)
  case (ProcessTransaction t)
  with c have "0 < amount t"
    by (simp add: TransactionEntity_positive)
  then have "\<not> amount t \<le> 0" by (rule pos)
  with inv have "\<forall>a \<in> set (getAllAccounts (snd (processTransaction accounts t))). P (balance a)"
    by (intro processTransaction_kept [where P = P]) (simp_all add: sub add)
  with ProcessTransaction show ?thesis by simp
next
  case (Transfer f t amt company)
  from inv have "\<forall>a \<in> set (getAllAccounts (snd (transfer accounts f t amt company))). P (balance a)"
    by (rule transfer_kept) (simp_all add: sub add)
  with Transfer show ?thesis by simp
next
  case (GetAccountBalance accountNo company)
  with inv show ?thesis by simp
next
  case GetAllAccounts
  with inv show ?thesis by simp
qed

lemma run_kept:
  fixes accounts :: "('n::{ord,zero,minus,plus}) company_account ledger"
  assumes "\<forall>a \<in> set (getAllAccounts accounts). P (balance a)" and "\<forall>c \<in> set calls. constructed c"
    and pos: "\<And>a :: 'n. 0 < a \<Longrightarrow> \<not> a \<le> 0"
    and sub: "\<And>a b :: 'n. \<not> a \<le> 0 \<Longrightarrow> a \<le> b \<Longrightarrow> P (b - a)"
    and add: "\<And>a b c :: 'n. \<not> a \<le> 0 \<Longrightarrow> a \<le> b \<Longrightarrow> P c \<Longrightarrow> P (c + a)"
  shows "\<forall>a \<in> set (getAllAccounts (foldl step accounts calls)). P (balance a)"
  using assms(1,2)
proof (induction calls arbitrary: accounts)
  case Nil
  then show ?case by simp
next
  case (Cons c calls)
  from Cons.prems(2) have c: "constructed c" and calls: "\<forall>c \<in> set calls. constructed c"
    by simp_all
  from Cons.prems(1) c pos sub add
  have "\<forall>a \<in> set (getAllAccounts (step accounts c)). P (balance a)"
    by (rule step_kept)
  then have "\<forall>a \<in> set (getAllAccounts (foldl step (step accounts c) calls)). P (balance a)"
    using calls by (rule Cons.IH)
  then show ?case by simp
qed

text \<open>
  With exact arithmetic (a linearly ordered abelian group: no infinity, no \<open>NaN\<close>) every
  balance stays at least 0.
\<close>

lemma balances_nonnegative_exact:
  fixes initialAccounts :: "('n::linordered_ab_group_add) company_account list"
  assumes "\<forall>a \<in> set initialAccounts. AccountEntity a = Inr a"
    and "\<forall>c \<in> set calls. constructed c"
  shows "\<forall>a \<in> set (getAllAccounts (foldl step (BankingService initialAccounts) calls)).
           0 \<le> balance a"
proof (rule run_kept [where P = "\<lambda>b. 0 \<le> b"])
  show "\<forall>a \<in> set (getAllAccounts (BankingService initialAccounts)). 0 \<le> balance a"
    using assms(1) by (rule BankingService_kept)
  show "\<forall>c \<in> set calls. constructed c" by (rule assms(2))
  show "\<not> a \<le> 0" if "0 < a" for a :: 'n using that by simp
  show "0 \<le> b - a" if "\<not> a \<le> 0" "a \<le> b" for a b :: 'n using that by simp
  show "0 \<le> c + a" if "\<not> a \<le> 0" "a \<le> b" "0 \<le> c" for a b c :: 'n using that by simp
qed

text \<open>
  C3 (as amended). In binary64, start from a ledger built from accounts that the
  validating constructor returns, and make any sequence of calls of \<open>processTransaction\<close>
  (on transactions that the validating constructor returns), \<open>transfer\<close> (with any
  arguments), \<open>getAccountBalance\<close> and \<open>getAllAccounts\<close>. After every call of the sequence,
  whether it returned or threw, every account that \<open>getAllAccounts\<close> lists has a balance
  that is at least 0 or is \<open>NaN\<close>; no balance is less than 0.
\<close>

theorem balances_never_negative:
  fixes initialAccounts :: "double company_account list"
  assumes "\<forall>a \<in> set initialAccounts. AccountEntity a = Inr a"
    and "\<forall>c \<in> set calls. constructed c"
  shows "\<forall>n \<le> length calls.
           \<forall>a \<in> set (getAllAccounts (foldl step (BankingService initialAccounts) (take n calls))).
             (0 \<le> balance a \<or> balance a = NaN) \<and> \<not> balance a < 0"
proof (intro allI impI)
  fix n
  have calls: "\<forall>c \<in> set (take n calls). constructed c"
    using assms(2) by (meson in_set_takeD)
  have "\<forall>a \<in> set (getAllAccounts (foldl step (BankingService initialAccounts) (take n calls))).
          0 \<le> balance a \<or> balance a = NaN"
  proof (rule run_kept [where P = "\<lambda>b. 0 \<le> b \<or> b = NaN"])
    show "\<forall>a \<in> set (getAllAccounts (BankingService initialAccounts)).
        0 \<le> balance a \<or> balance a = NaN"
      using assms(1) by (rule BankingService_kept) simp
    show "\<forall>c \<in> set (take n calls). constructed c" by (rule calls)
    show "\<not> a \<le> 0" if "0 < a" for a :: double using that by (rule double_pos_not_le_zero)
    show "0 \<le> b - a \<or> b - a = NaN" if "\<not> a \<le> 0" "a \<le> b" for a b :: double
      using that(2) by (rule double_minus_nonneg_or_NaN)
    show "0 \<le> c + a \<or> c + a = NaN" if "\<not> a \<le> 0" "a \<le> b" "0 \<le> c \<or> c = NaN"
      for a b c :: double
      using that(3,2,1) by (rule double_plus_nonneg_or_NaN)
  qed
  moreover have "\<not> x < 0" if "0 \<le> x \<or> x = NaN" for x :: double
    using that by (cases x) (auto simp add: zero_le_double less_zero_double)
  ultimately
  show "\<forall>a \<in> set (getAllAccounts (foldl step (BankingService initialAccounts) (take n calls))).
          (0 \<le> balance a \<or> balance a = NaN) \<and> \<not> balance a < 0"
    by blast
qed

text \<open>
  The accounts of the tests, and a sequence with the transfer, the overdraft, a rejected
  amount, a query and a transfer that empties an account.
\<close>

theorem balances_never_negative_witness:
  "list_all (\<lambda>a. AccountEntity a = Inr a) test_accounts_binary64
   \<and> list_all constructed
       [ProcessTransaction
          (tx ''1111234522226789'' ''2222123433331212'' (literal 500 1) ''alpha-sales''),
        Transfer ''2222123433331212'' ''1111234522226789'' (literal 5000 1) ''alpha-sales'',
        Transfer ''1111234522226789'' ''2222123433331212'' (literal (- 100) 1) ''alpha-sales'',
        GetAccountBalance ''1111234522226789'' ''alpha-sales'',
        GetAllAccounts,
        Transfer ''1111234522221234'' ''2222123433331212'' (literal 10000 1) ''alpha-sales'']
   \<and> list_all (\<lambda>a. (0 \<le> balance a \<or> balance a = NaN) \<and> \<not> balance a < 0)
       (getAllAccounts (foldl step (BankingService test_accounts_binary64)
         [ProcessTransaction
            (tx ''1111234522226789'' ''2222123433331212'' (literal 500 1) ''alpha-sales''),
          Transfer ''2222123433331212'' ''1111234522226789'' (literal 5000 1) ''alpha-sales'',
          Transfer ''1111234522226789'' ''2222123433331212'' (literal (- 100) 1) ''alpha-sales'',
          GetAccountBalance ''1111234522226789'' ''alpha-sales'',
          GetAllAccounts,
          Transfer ''1111234522221234'' ''2222123433331212'' (literal 10000 1) ''alpha-sales'']))"
proof -
  let ?calls =
       "[ProcessTransaction
          (tx ''1111234522226789'' ''2222123433331212'' (literal 500 1) ''alpha-sales''),
        Transfer ''2222123433331212'' ''1111234522226789'' (literal 5000 1) ''alpha-sales'',
        Transfer ''1111234522226789'' ''2222123433331212'' (literal (- 100) 1) ''alpha-sales'',
        GetAccountBalance ''1111234522226789'' ''alpha-sales'',
        GetAllAccounts,
        Transfer ''1111234522221234'' ''2222123433331212'' (literal 10000 1) ''alpha-sales'']"
  have accounts: "\<forall>a \<in> set test_accounts_binary64. AccountEntity a = Inr a"
    by code_simp
  have calls: "\<forall>c \<in> set ?calls. constructed c"
    by code_simp
  from balances_never_negative [OF accounts calls]
  have "\<forall>a \<in> set (getAllAccounts (foldl step (BankingService test_accounts_binary64)
          (take (length ?calls) ?calls))).
            (0 \<le> balance a \<or> balance a = NaN) \<and> \<not> balance a < 0"
    by blast
  then have "list_all (\<lambda>a. (0 \<le> balance a \<or> balance a = NaN) \<and> \<not> balance a < 0)
       (getAllAccounts (foldl step (BankingService test_accounts_binary64) ?calls))"
    by (simp only: take_all order_refl list_all_iff)
  with accounts calls show ?thesis
    by (simp only: list_all_iff)
qed

text \<open>
  C3 as stated fails in binary64, where the schemas accept \<^verbatim>\<open>Infinity\<close> (zod's \<^verbatim>\<open>z.number()\<close>
  refuses only \<open>NaN\<close>): the constructors return an account with the balance \<^verbatim>\<open>Infinity\<close> and a
  transaction with the amount \<^verbatim>\<open>Infinity\<close>, \<open>canWithdraw\<close> holds, and the withdrawal leaves
  the balance \<open>NaN\<close>, which is not at least 0. The same happens from finite balances: a
  transfer of the largest finite number between two accounts that hold it makes the
  destination infinite, and \<open>transfer\<close> of \<^verbatim>\<open>Infinity\<close> back leaves \<open>NaN\<close>.
\<close>

theorem infinite_balance_counterexample:
  "AccountEntity (acct ''1111234522226789'' PosInf ''alpha-sales'')
     = Inr (acct ''1111234522226789'' PosInf ''alpha-sales'')
   \<and> AccountEntity (acct ''2222123433331212'' (literal 550 1) ''alpha-sales'')
     = Inr (acct ''2222123433331212'' (literal 550 1) ''alpha-sales'')
   \<and> constructed (ProcessTransaction
        (tx ''1111234522226789'' ''2222123433331212'' PosInf ''alpha-sales''))
   \<and> map balance (getAllAccounts (step
        (BankingService [acct ''1111234522226789'' PosInf ''alpha-sales'',
           acct ''2222123433331212'' (literal 550 1) ''alpha-sales''])
        (ProcessTransaction
          (tx ''1111234522226789'' ''2222123433331212'' PosInf ''alpha-sales''))))
       = [NaN, PosInf]
   \<and> \<not> (0 :: double) \<le> NaN
   \<and> AccountEntity (acct ''1111234522226789'' (Finite 9007199254740991 971) ''alpha-sales'')
     = Inr (acct ''1111234522226789'' (Finite 9007199254740991 971) ''alpha-sales'')
   \<and> AccountEntity (acct ''2222123433331212'' (Finite 9007199254740991 971) ''alpha-sales'')
     = Inr (acct ''2222123433331212'' (Finite 9007199254740991 971) ''alpha-sales'')
   \<and> map balance (getAllAccounts (foldl step
        (BankingService [acct ''1111234522226789'' (Finite 9007199254740991 971) ''alpha-sales'',
           acct ''2222123433331212'' (Finite 9007199254740991 971) ''alpha-sales''])
        [Transfer ''1111234522226789'' ''2222123433331212'' (Finite 9007199254740991 971)
           ''alpha-sales'',
         Transfer ''2222123433331212'' ''1111234522226789'' PosInf ''alpha-sales'']))
       = [PosInf, NaN]"
  by code_simp

subsection \<open>\<open>transfer\<close> and constructing a transaction\<close>

text \<open>With exact arithmetic \<open>transfer\<close> of a positive amount is \<open>processTransaction\<close>.\<close>

lemma transfer_positive:
  fixes accounts :: "('n::linordered_ab_group_add) company_account ledger"
  assumes "0 < amt"
  shows "transfer accounts fromNo toNo amt company =
     processTransaction accounts (tx fromNo toNo amt company)"
proof -
  from assms have neg: "(amt \<le> 0) = False" by simp
  show ?thesis
  proof (cases "map_of accounts fromNo")
    case None
    then show ?thesis by (simp add: transfer_def processTransaction_def neg)
  next
    case (Some fa)
    then show ?thesis
      by (cases "map_of accounts toNo")
        (simp_all add: transfer_def processTransaction_def canWithdraw_def neg not_le)
  qed
qed

lemma transfer_plain_positive:
  fixes accounts :: "('n::linordered_ab_group_add) account ledger"
  assumes "0 < amt"
  shows "transfer_plain accounts fromNo toNo amt =
     processTransaction_plain accounts (tx_plain fromNo toNo amt)"
proof -
  from assms have neg: "(amt \<le> 0) = False" by simp
  show ?thesis
  proof (cases "map_of accounts fromNo")
    case None
    then show ?thesis by (simp add: transfer_plain_def processTransaction_plain_def neg)
  next
    case (Some fa)
    then show ?thesis
      by (cases "map_of accounts toNo")
        (simp_all add: transfer_plain_def processTransaction_plain_def canWithdraw_def neg not_le)
  qed
qed

text \<open>The constructor, for every number type.\<close>

lemma construct_and_process_valid:
  "accountNumber_ok fromNo \<Longrightarrow> accountNumber_ok toNo \<Longrightarrow> 0 < amt \<Longrightarrow>
   construct_and_process accounts fromNo toNo amt company =
     processTransaction accounts (tx fromNo toNo amt company)"
  by (simp add: construct_and_process_def TransactionEntity_def TransactionSchema_def)

lemma construct_and_process_plain_valid:
  "accountNumber_ok fromNo \<Longrightarrow> accountNumber_ok toNo \<Longrightarrow> 0 < amt \<Longrightarrow>
   construct_and_process_plain accounts fromNo toNo amt =
     processTransaction_plain accounts (tx_plain fromNo toNo amt)"
  by (simp add: construct_and_process_plain_def TransactionEntity_def TransactionSchema_def)

lemma construct_and_process_invalid:
  "\<not> accountNumber_ok fromNo \<or> \<not> accountNumber_ok toNo \<or> \<not> 0 < amt \<Longrightarrow>
   construct_and_process accounts fromNo toNo amt company = (Some ZodError, accounts)"
  by (auto simp add: construct_and_process_def TransactionEntity_def TransactionSchema_def)

lemma construct_and_process_plain_invalid:
  "\<not> accountNumber_ok fromNo \<or> \<not> accountNumber_ok toNo \<or> \<not> 0 < amt \<Longrightarrow>
   construct_and_process_plain accounts fromNo toNo amt = (Some ZodError, accounts)"
  by (auto simp add: construct_and_process_plain_def TransactionEntity_def TransactionSchema_def)

text \<open>
  In binary64 the two checks of the funds, \<^verbatim>\<open>fromAcc.balance < amount\<close> in \<open>transfer\<close> and
  \<^verbatim>\<open>!fromAcc.canWithdraw(amount)\<close> in \<open>processTransaction\<close>, agree unless the balance or the
  amount is \<open>NaN\<close>, where both comparisons are false: \<open>transfer\<close> goes on to \<open>withdraw\<close>, which
  throws its own error.
\<close>

lemma double_funds_checks:
  fixes a b :: double
  shows "(b < a) = (if a = NaN \<or> b = NaN then False else \<not> a \<le> b)"
    and "a = NaN \<or> b = NaN \<Longrightarrow> \<not> a \<le> b"
  using double_less_iff_not_le [of b a] double_NaN_comparisons by auto

lemma transfer_binary64:
  fixes accounts :: "double company_account ledger"
  assumes "\<not> amt \<le> 0"
  shows "transfer accounts fromNo toNo amt company =
     (if \<exists>fa ta. map_of accounts fromNo = Some fa \<and> map_of accounts toNo = Some ta
           \<and> company_account.companyId fa = company \<and> company_account.companyId ta = company
           \<and> (amt = NaN \<or> balance fa = NaN)
      then (Some (Error ''Insufficient funds''), accounts)
      else processTransaction accounts (tx fromNo toNo amt company))"
proof (cases "map_of accounts fromNo")
  case None
  with assms show ?thesis by (simp add: transfer_def processTransaction_def)
next
  case (Some fa)
  note fa = this
  show ?thesis
  proof (cases "map_of accounts toNo")
    case None
    with assms fa show ?thesis by (simp add: transfer_def processTransaction_def)
  next
    case (Some ta)
    note ta = this
    show ?thesis
    proof (cases "company_account.companyId fa = company \<and> company_account.companyId ta = company")
      case False
      with assms fa ta show ?thesis by (auto simp add: transfer_def processTransaction_def)
    next
      case True
      note companies = this
      show ?thesis
      proof (cases "amt = NaN \<or> balance fa = NaN")
        case True
        then have "\<not> balance fa < amt" and "\<not> canWithdraw fa amt"
          by (simp_all add: double_funds_checks canWithdraw_def)
        with assms fa ta companies
        have "transfer accounts fromNo toNo amt company
            = (Some (Error ''Insufficient funds''), accounts)"
          by (simp add: transfer_def withdraw_deposit_fail)
        with fa ta companies True show ?thesis by simp
      next
        case False
        then have "(balance fa < amt) = (\<not> canWithdraw fa amt)"
          by (simp add: double_funds_checks canWithdraw_def)
        with assms fa ta companies False show ?thesis
          by (simp add: transfer_def processTransaction_def)
      qed
    qed
  qed
qed

lemma transfer_plain_binary64:
  fixes accounts :: "double account ledger"
  assumes "\<not> amt \<le> 0"
  shows "transfer_plain accounts fromNo toNo amt =
     (if \<exists>fa ta. map_of accounts fromNo = Some fa \<and> map_of accounts toNo = Some ta
           \<and> (amt = NaN \<or> balance fa = NaN)
      then (Some (Error ''Insufficient funds''), accounts)
      else processTransaction_plain accounts (tx_plain fromNo toNo amt))"
proof (cases "map_of accounts fromNo")
  case None
  with assms show ?thesis by (simp add: transfer_plain_def processTransaction_plain_def)
next
  case (Some fa)
  note fa = this
  show ?thesis
  proof (cases "map_of accounts toNo")
    case None
    with assms fa show ?thesis by (simp add: transfer_plain_def processTransaction_plain_def)
  next
    case (Some ta)
    note ta = this
    show ?thesis
    proof (cases "amt = NaN \<or> balance fa = NaN")
      case True
      then have "\<not> balance fa < amt" and "\<not> canWithdraw fa amt"
        by (simp_all add: double_funds_checks canWithdraw_def)
      with assms fa ta
      have "transfer_plain accounts fromNo toNo amt
          = (Some (Error ''Insufficient funds''), accounts)"
        by (simp add: transfer_plain_def withdraw_deposit_fail)
      with fa ta True show ?thesis by simp
    next
      case False
      then have "(balance fa < amt) = (\<not> canWithdraw fa amt)"
        by (simp add: double_funds_checks canWithdraw_def)
      with assms fa ta False show ?thesis
        by (simp add: transfer_plain_def processTransaction_plain_def)
    qed
  qed
qed

text \<open>Where \<open>transfer\<close> throws the error of \<open>withdraw\<close>, \<open>processTransaction\<close> throws its own.\<close>

lemma processTransaction_NaN:
  fixes accounts :: "double company_account ledger"
  assumes "map_of accounts fromNo = Some fa" and "map_of accounts toNo = Some ta"
    and "company_account.companyId fa = company" and "company_account.companyId ta = company"
    and "amt = NaN \<or> balance fa = NaN"
  shows "processTransaction accounts (tx fromNo toNo amt company)
    = (Some (InsufficientFundsError (accountNumber fa) amt (balance fa)), accounts)"
proof -
  from assms(5) have "\<not> canWithdraw fa amt"
    by (simp add: double_funds_checks canWithdraw_def)
  with assms(1-4) show ?thesis by (simp add: processTransaction_def)
qed

lemma processTransaction_plain_NaN:
  fixes accounts :: "double account ledger"
  assumes "map_of accounts fromNo = Some fa" and "map_of accounts toNo = Some ta"
    and "amt = NaN \<or> balance fa = NaN"
  shows "processTransaction_plain accounts (tx_plain fromNo toNo amt)
    = (Some (InsufficientFundsError (accountNumber fa) amt (balance fa)), accounts)"
proof -
  from assms(3) have "\<not> canWithdraw fa amt"
    by (simp add: double_funds_checks canWithdraw_def)
  with assms(1,2) show ?thesis by (simp add: processTransaction_plain_def)
qed

lemma transfer_ledger_binary64:
  fixes accounts :: "double company_account ledger"
  assumes "\<not> amt \<le> 0"
  shows "snd (transfer accounts fromNo toNo amt company)
    = snd (processTransaction accounts (tx fromNo toNo amt company))"
proof (cases "\<exists>fa ta. map_of accounts fromNo = Some fa \<and> map_of accounts toNo = Some ta
           \<and> company_account.companyId fa = company \<and> company_account.companyId ta = company
           \<and> (amt = NaN \<or> balance fa = NaN)")
  case True
  then obtain fa ta where "map_of accounts fromNo = Some fa" "map_of accounts toNo = Some ta"
    "company_account.companyId fa = company" "company_account.companyId ta = company"
    "amt = NaN \<or> balance fa = NaN"
    by blast
  then have "snd (processTransaction accounts (tx fromNo toNo amt company)) = accounts"
    by (simp only: processTransaction_NaN snd_conv)
  moreover from True have "snd (transfer accounts fromNo toNo amt company) = accounts"
    by (simp only: transfer_binary64 [OF assms] if_True snd_conv)
  ultimately show ?thesis by simp
next
  case False
  then show ?thesis by (simp only: transfer_binary64 [OF assms] if_False)
qed

lemma transfer_plain_ledger_binary64:
  fixes accounts :: "double account ledger"
  assumes "\<not> amt \<le> 0"
  shows "snd (transfer_plain accounts fromNo toNo amt)
    = snd (processTransaction_plain accounts (tx_plain fromNo toNo amt))"
proof (cases "\<exists>fa ta. map_of accounts fromNo = Some fa \<and> map_of accounts toNo = Some ta
           \<and> (amt = NaN \<or> balance fa = NaN)")
  case True
  then obtain fa ta where "map_of accounts fromNo = Some fa" "map_of accounts toNo = Some ta"
    "amt = NaN \<or> balance fa = NaN"
    by blast
  then have "snd (processTransaction_plain accounts (tx_plain fromNo toNo amt)) = accounts"
    by (simp only: processTransaction_plain_NaN snd_conv)
  moreover from True have "snd (transfer_plain accounts fromNo toNo amt) = accounts"
    by (simp only: transfer_plain_binary64 [OF assms] if_True snd_conv)
  ultimately show ?thesis by simp
next
  case False
  then show ?thesis by (simp only: transfer_plain_binary64 [OF assms] if_False)
qed

lemma processTransaction_NaN_amount:
  fixes accounts :: "double company_account ledger"
  shows "snd (processTransaction accounts (tx fromNo toNo NaN company)) = accounts"
  by (simp add: processTransaction_def canWithdraw_def double_NaN_comparisons
      split: option.splits)

lemma processTransaction_plain_NaN_amount:
  fixes accounts :: "double account ledger"
  shows "snd (processTransaction_plain accounts (tx_plain fromNo toNo NaN)) = accounts"
  by (simp add: processTransaction_plain_def canWithdraw_def double_NaN_comparisons
      split: option.splits)

text \<open>
  C4 (as amended). In binary64, for every ledger, account numbers, amount and company:

  \<^item> for an amount that is zero or negative, \<open>transfer\<close> throws
    \<^verbatim>\<open>Error('Amount must be greater than 0')\<close> whatever the ledger holds, where the constructor
    of the transaction throws its \<open>ZodError\<close>; the ledger stays as it is in both;
  \<^item> for account numbers of the format that the constructor accepts (16 digits), a positive
    amount and a source account whose balance is not \<open>NaN\<close>, \<open>transfer\<close> has the result of
    constructing the transaction and processing it: the same error, if any, and the same
    ledger;
  \<^item> for account numbers of that format and every amount, the ledger after \<open>transfer\<close> is the
    ledger after constructing and processing;
  \<^item> for every amount that is not zero or negative, \<open>transfer\<close> is \<open>processTransaction\<close> on the
    unvalidated fields, unless both accounts exist with the company of the call and the
    amount or the balance of the source is \<open>NaN\<close>: then \<open>transfer\<close> throws the
    \<^verbatim>\<open>Error('Insufficient funds')\<close> of \<open>withdraw\<close>, where \<open>processTransaction\<close> throws
    \<open>InsufficientFundsError\<close>;
  \<^item> the constructor throws \<open>ZodError\<close> for a malformed account number and for every amount
    that is not positive, \<open>NaN\<close> included; \<open>transfer\<close> never checks the format of the
    account numbers;
  \<^item> every amount is zero or negative, or positive, or \<open>NaN\<close>.

  The same holds of the service without companies.
\<close>

theorem transfer_refines_construct_and_process:
  fixes accounts :: "double company_account ledger"
    and accounts_p :: "double account ledger"
  shows "(amt \<le> 0 \<longrightarrow>
            transfer accounts fromNo toNo amt company
              = (Some (Error ''Amount must be greater than 0''), accounts)
          \<and> construct_and_process accounts fromNo toNo amt company = (Some ZodError, accounts)
          \<and> transfer_plain accounts_p fromNo toNo amt
              = (Some (Error ''Amount must be greater than 0''), accounts_p)
          \<and> construct_and_process_plain accounts_p fromNo toNo amt = (Some ZodError, accounts_p))
       \<and> (accountNumber_ok fromNo \<and> accountNumber_ok toNo \<and> 0 < amt
            \<and> (\<forall>fa. map_of accounts fromNo = Some fa \<longrightarrow> balance fa \<noteq> NaN) \<longrightarrow>
            transfer accounts fromNo toNo amt company
              = construct_and_process accounts fromNo toNo amt company)
       \<and> (accountNumber_ok fromNo \<and> accountNumber_ok toNo \<and> 0 < amt
            \<and> (\<forall>fa. map_of accounts_p fromNo = Some fa \<longrightarrow> balance fa \<noteq> NaN) \<longrightarrow>
            transfer_plain accounts_p fromNo toNo amt
              = construct_and_process_plain accounts_p fromNo toNo amt)
       \<and> (accountNumber_ok fromNo \<and> accountNumber_ok toNo \<longrightarrow>
            snd (transfer accounts fromNo toNo amt company)
              = snd (construct_and_process accounts fromNo toNo amt company)
          \<and> snd (transfer_plain accounts_p fromNo toNo amt)
              = snd (construct_and_process_plain accounts_p fromNo toNo amt))
       \<and> (\<not> amt \<le> 0 \<longrightarrow>
            transfer accounts fromNo toNo amt company =
              (if \<exists>fa ta. map_of accounts fromNo = Some fa \<and> map_of accounts toNo = Some ta
                    \<and> company_account.companyId fa = company
                    \<and> company_account.companyId ta = company
                    \<and> (amt = NaN \<or> balance fa = NaN)
               then (Some (Error ''Insufficient funds''), accounts)
               else processTransaction accounts (tx fromNo toNo amt company))
          \<and> transfer_plain accounts_p fromNo toNo amt =
              (if \<exists>fa ta. map_of accounts_p fromNo = Some fa \<and> map_of accounts_p toNo = Some ta
                    \<and> (amt = NaN \<or> balance fa = NaN)
               then (Some (Error ''Insufficient funds''), accounts_p)
               else processTransaction_plain accounts_p (tx_plain fromNo toNo amt)))
       \<and> (map_of accounts fromNo = Some src \<and> map_of accounts toNo = Some dst
            \<and> company_account.companyId src = company \<and> company_account.companyId dst = company
            \<and> (amt = NaN \<or> balance src = NaN) \<longrightarrow>
            processTransaction accounts (tx fromNo toNo amt company)
              = (Some (InsufficientFundsError (accountNumber src) amt (balance src)), accounts))
       \<and> (map_of accounts_p fromNo = Some src_p \<and> map_of accounts_p toNo = Some dst_p
            \<and> (amt = NaN \<or> balance src_p = NaN) \<longrightarrow>
            processTransaction_plain accounts_p (tx_plain fromNo toNo amt)
              = (Some (InsufficientFundsError (accountNumber src_p) amt (balance src_p)),
                 accounts_p))
       \<and> (\<not> accountNumber_ok fromNo \<or> \<not> accountNumber_ok toNo \<or> \<not> 0 < amt \<longrightarrow>
            construct_and_process accounts fromNo toNo amt company = (Some ZodError, accounts)
          \<and> construct_and_process_plain accounts_p fromNo toNo amt = (Some ZodError, accounts_p))
       \<and> (amt \<le> 0 \<or> 0 < amt \<or> amt = NaN)
       \<and> (0 < amt \<longrightarrow> \<not> amt \<le> 0 \<and> amt \<noteq> NaN)"
  (is "?nonpos \<and> ?same \<and> ?same_p \<and> ?ledger \<and> ?cases \<and> ?differ \<and> ?differ_p \<and> ?invalid
       \<and> ?every \<and> ?positive")
proof -
  have every: ?every by (rule double_sign_cases)
  have positive: ?positive
    using double_pos_not_le_zero [of amt] by (auto simp add: zero_less_double)
  have nonpos: ?nonpos
  proof
    assume le: "amt \<le> 0"
    then have "\<not> 0 < amt" by (rule double_le_zero_not_pos)
    then have "construct_and_process accounts fromNo toNo amt company = (Some ZodError, accounts)"
      and "construct_and_process_plain accounts_p fromNo toNo amt = (Some ZodError, accounts_p)"
      by (simp_all add: construct_and_process_invalid construct_and_process_plain_invalid)
    with le show "transfer accounts fromNo toNo amt company
              = (Some (Error ''Amount must be greater than 0''), accounts)
          \<and> construct_and_process accounts fromNo toNo amt company = (Some ZodError, accounts)
          \<and> transfer_plain accounts_p fromNo toNo amt
              = (Some (Error ''Amount must be greater than 0''), accounts_p)
          \<and> construct_and_process_plain accounts_p fromNo toNo amt = (Some ZodError, accounts_p)"
      by (simp add: transfer_def transfer_plain_def)
  qed
  have cases: ?cases
    using transfer_binary64 [of amt accounts fromNo toNo company]
      transfer_plain_binary64 [of amt accounts_p fromNo toNo]
    by blast
  have same: ?same
  proof
    assume a: "accountNumber_ok fromNo \<and> accountNumber_ok toNo \<and> 0 < amt
            \<and> (\<forall>fa. map_of accounts fromNo = Some fa \<longrightarrow> balance fa \<noteq> NaN)"
    with positive have amt: "\<not> amt \<le> 0" "amt \<noteq> NaN" by simp_all
    from a amt(2) have "\<not> (\<exists>fa ta. map_of accounts fromNo = Some fa \<and> map_of accounts toNo = Some ta
                    \<and> company_account.companyId fa = company
                    \<and> company_account.companyId ta = company
                    \<and> (amt = NaN \<or> balance fa = NaN))"
      by blast
    then have "transfer accounts fromNo toNo amt company
        = processTransaction accounts (tx fromNo toNo amt company)"
      by (simp only: transfer_binary64 [OF amt(1)] if_False)
    with a show "transfer accounts fromNo toNo amt company
              = construct_and_process accounts fromNo toNo amt company"
      by (simp only: construct_and_process_valid)
  qed
  have same_p: ?same_p
  proof
    assume a: "accountNumber_ok fromNo \<and> accountNumber_ok toNo \<and> 0 < amt
            \<and> (\<forall>fa. map_of accounts_p fromNo = Some fa \<longrightarrow> balance fa \<noteq> NaN)"
    with positive have amt: "\<not> amt \<le> 0" "amt \<noteq> NaN" by simp_all
    from a amt(2)
    have "\<not> (\<exists>fa ta. map_of accounts_p fromNo = Some fa \<and> map_of accounts_p toNo = Some ta
                    \<and> (amt = NaN \<or> balance fa = NaN))"
      by blast
    then have "transfer_plain accounts_p fromNo toNo amt
        = processTransaction_plain accounts_p (tx_plain fromNo toNo amt)"
      by (simp only: transfer_plain_binary64 [OF amt(1)] if_False)
    with a show "transfer_plain accounts_p fromNo toNo amt
              = construct_and_process_plain accounts_p fromNo toNo amt"
      by (simp only: construct_and_process_plain_valid)
  qed
  have ledger: ?ledger
  proof
    assume ok: "accountNumber_ok fromNo \<and> accountNumber_ok toNo"
    from every consider "amt \<le> 0" | "0 < amt" | "amt = NaN" by blast
    then show "snd (transfer accounts fromNo toNo amt company)
              = snd (construct_and_process accounts fromNo toNo amt company)
          \<and> snd (transfer_plain accounts_p fromNo toNo amt)
              = snd (construct_and_process_plain accounts_p fromNo toNo amt)"
    proof cases
      case 1
      with nonpos show ?thesis by simp
    next
      case 2
      with positive have "\<not> amt \<le> 0" by simp
      then have "snd (transfer accounts fromNo toNo amt company)
          = snd (processTransaction accounts (tx fromNo toNo amt company))"
        and "snd (transfer_plain accounts_p fromNo toNo amt)
          = snd (processTransaction_plain accounts_p (tx_plain fromNo toNo amt))"
        by (rule transfer_ledger_binary64, rule transfer_plain_ledger_binary64)
      with ok 2 show ?thesis
        by (simp only: construct_and_process_valid construct_and_process_plain_valid)
    next
      case 3
      then have amt: "\<not> amt \<le> 0" "\<not> 0 < amt"
        by (simp_all add: le_zero_double zero_less_double)
      from amt(1) have "snd (transfer accounts fromNo toNo amt company)
          = snd (processTransaction accounts (tx fromNo toNo amt company))"
        and "snd (transfer_plain accounts_p fromNo toNo amt)
          = snd (processTransaction_plain accounts_p (tx_plain fromNo toNo amt))"
        by (rule transfer_ledger_binary64, rule transfer_plain_ledger_binary64)
      with 3 have "snd (transfer accounts fromNo toNo amt company) = accounts"
        and "snd (transfer_plain accounts_p fromNo toNo amt) = accounts_p"
        by (simp_all only: processTransaction_NaN_amount processTransaction_plain_NaN_amount)
      moreover from amt(2)
      have "construct_and_process accounts fromNo toNo amt company = (Some ZodError, accounts)"
        and "construct_and_process_plain accounts_p fromNo toNo amt
          = (Some ZodError, accounts_p)"
        by (simp_all add: construct_and_process_invalid construct_and_process_plain_invalid)
      ultimately show ?thesis by simp
    qed
  qed
  have differ: ?differ
    using processTransaction_NaN [of accounts fromNo src toNo dst company amt] by blast
  have differ_p: ?differ_p
    using processTransaction_plain_NaN [of accounts_p fromNo src_p toNo dst_p amt] by blast
  have invalid: ?invalid
    using construct_and_process_invalid [of fromNo toNo amt accounts company]
      construct_and_process_plain_invalid [of fromNo toNo amt accounts_p]
    by blast
  from nonpos same same_p ledger cases differ differ_p invalid every positive
  show ?thesis by (intro conjI)
qed

text \<open>
  The accounts of the tests in binary64: the successful transfer of the tests, the amount 0,
  the amount \<open>NaN\<close> and a malformed account number.
\<close>

theorem transfer_refines_construct_and_process_witness:
  "accountNumber_ok ''1111234522226789'' \<and> accountNumber_ok ''2222123433331212''
   \<and> 0 < literal 500 1
   \<and> map_option balance (map_of (BankingService test_accounts_binary64) ''1111234522226789'')
       = Some (literal 5000 1)
   \<and> literal 5000 1 \<noteq> NaN
   \<and> transfer (BankingService test_accounts_binary64) ''1111234522226789'' ''2222123433331212''
         (literal 500 1) ''alpha-sales''
       = construct_and_process (BankingService test_accounts_binary64) ''1111234522226789''
           ''2222123433331212'' (literal 500 1) ''alpha-sales''
   \<and> transfer_plain
         (BankingService [acct_plain ''1111234522226789'' (literal 5000 1),
           acct_plain ''2222123433331212'' (literal 550 1)])
         ''1111234522226789'' ''2222123433331212'' (literal 500 1)
       = construct_and_process_plain
           (BankingService [acct_plain ''1111234522226789'' (literal 5000 1),
           acct_plain ''2222123433331212'' (literal 550 1)])
           ''1111234522226789'' ''2222123433331212'' (literal 500 1)
   \<and> literal 0 1 \<le> 0
   \<and> transfer (BankingService test_accounts_binary64) ''1111234522226789'' ''2222123433331212''
         (literal 0 1) ''alpha-sales''
       = (Some (Error ''Amount must be greater than 0''), BankingService test_accounts_binary64)
   \<and> construct_and_process (BankingService test_accounts_binary64) ''1111234522226789''
         ''2222123433331212'' (literal 0 1) ''alpha-sales''
       = (Some ZodError, BankingService test_accounts_binary64)
   \<and> \<not> NaN \<le> (0 :: double)
   \<and> transfer (BankingService test_accounts_binary64) ''1111234522226789'' ''2222123433331212'' NaN
         ''alpha-sales''
       = (Some (Error ''Insufficient funds''), BankingService test_accounts_binary64)
   \<and> processTransaction (BankingService test_accounts_binary64)
         (tx ''1111234522226789'' ''2222123433331212'' NaN ''alpha-sales'')
       = (Some (InsufficientFundsError ''1111234522226789'' NaN (literal 5000 1)),
          BankingService test_accounts_binary64)
   \<and> construct_and_process (BankingService test_accounts_binary64) ''1111234522226789''
         ''2222123433331212'' NaN ''alpha-sales''
       = (Some ZodError, BankingService test_accounts_binary64)
   \<and> \<not> accountNumber_ok ''123''
   \<and> construct_and_process (BankingService test_accounts_binary64) ''123''
         ''1111234522226789'' (literal 100 1) ''alpha-sales''
       = (Some ZodError, BankingService test_accounts_binary64)"
proof -
  note positive = transfer_refines_construct_and_process
    [where accounts = "BankingService test_accounts_binary64"
       and accounts_p = "BankingService [acct_plain ''1111234522226789'' (literal 5000 1),
           acct_plain ''2222123433331212'' (literal 550 1)]"
       and fromNo = "''1111234522226789''" and toNo = "''2222123433331212''"
       and amt = "literal 500 1" and company = "''alpha-sales''"]
  note zero = transfer_refines_construct_and_process
    [where accounts = "BankingService test_accounts_binary64"
       and fromNo = "''1111234522226789''" and toNo = "''2222123433331212''"
       and amt = "literal 0 1" and company = "''alpha-sales''", THEN conjunct1]
  note not_a_number = transfer_refines_construct_and_process
    [where accounts = "BankingService test_accounts_binary64"
       and fromNo = "''1111234522226789''" and toNo = "''2222123433331212''"
       and amt = NaN and company = "''alpha-sales''"
       and src = "acct ''1111234522226789'' (literal 5000 1) ''alpha-sales''"
       and dst = "acct ''2222123433331212'' (literal 550 1) ''alpha-sales''"]
  note malformed = transfer_refines_construct_and_process
    [where accounts = "BankingService test_accounts_binary64"
       and fromNo = "''123''" and toNo = "''1111234522226789''"
       and amt = "literal 100 1" and company = "''alpha-sales''"]
  have numbers: "accountNumber_ok ''1111234522226789''" "accountNumber_ok ''2222123433331212''"
    "0 < literal 500 1" "literal 0 1 \<le> 0" "literal 5000 1 \<noteq> NaN" "\<not> accountNumber_ok ''123''"
    by code_simp+
  have NaN: "\<not> NaN \<le> (0 :: double)" by (simp add: le_zero_double)
  have ledger: "BankingService test_accounts_binary64 =
     [(''1111234522226789'', acct ''1111234522226789'' (literal 5000 1) ''alpha-sales''),
      (''1111234522221234'', acct ''1111234522221234'' (literal 10000 1) ''alpha-sales''),
      (''2222123433331212'', acct ''2222123433331212'' (literal 550 1) ''alpha-sales''),
      (''9999999999999999'', acct ''9999999999999999'' (literal 1000 1) ''beta-sales'')]"
    by (simp add: BankingService_def test_accounts_binary64_def)
  have ledger_p: "BankingService [acct_plain ''1111234522226789'' (literal 5000 1),
           acct_plain ''2222123433331212'' (literal 550 1)] =
     [(''1111234522226789'', acct_plain ''1111234522226789'' (literal 5000 1)),
      (''2222123433331212'', acct_plain ''2222123433331212'' (literal 550 1))]"
    by (simp add: BankingService_def)
  have src: "map_of (BankingService test_accounts_binary64) ''1111234522226789''
      = Some (acct ''1111234522226789'' (literal 5000 1) ''alpha-sales'')"
    and dst: "map_of (BankingService test_accounts_binary64) ''2222123433331212''
      = Some (acct ''2222123433331212'' (literal 550 1) ''alpha-sales'')"
    unfolding ledger by simp_all
  have src_p: "map_of (BankingService [acct_plain ''1111234522226789'' (literal 5000 1),
           acct_plain ''2222123433331212'' (literal 550 1)]) ''1111234522226789''
      = Some (acct_plain ''1111234522226789'' (literal 5000 1))"
    unfolding ledger_p by simp
  have a: "transfer (BankingService test_accounts_binary64) ''1111234522226789'' ''2222123433331212''
         (literal 500 1) ''alpha-sales''
       = construct_and_process (BankingService test_accounts_binary64) ''1111234522226789''
           ''2222123433331212'' (literal 500 1) ''alpha-sales''"
    using positive [THEN conjunct2, THEN conjunct1] numbers src by simp
  have b: "transfer_plain
         (BankingService [acct_plain ''1111234522226789'' (literal 5000 1),
           acct_plain ''2222123433331212'' (literal 550 1)])
         ''1111234522226789'' ''2222123433331212'' (literal 500 1)
       = construct_and_process_plain
           (BankingService [acct_plain ''1111234522226789'' (literal 5000 1),
           acct_plain ''2222123433331212'' (literal 550 1)])
           ''1111234522226789'' ''2222123433331212'' (literal 500 1)"
    using positive [THEN conjunct2, THEN conjunct2, THEN conjunct1] numbers src_p by simp
  have c: "transfer (BankingService test_accounts_binary64) ''1111234522226789'' ''2222123433331212''
         (literal 0 1) ''alpha-sales''
       = (Some (Error ''Amount must be greater than 0''), BankingService test_accounts_binary64)"
    "construct_and_process (BankingService test_accounts_binary64) ''1111234522226789''
         ''2222123433331212'' (literal 0 1) ''alpha-sales''
       = (Some ZodError, BankingService test_accounts_binary64)"
    using zero numbers by simp_all
  have d: "transfer (BankingService test_accounts_binary64) ''1111234522226789'' ''2222123433331212'' NaN
         ''alpha-sales''
       = (Some (Error ''Insufficient funds''), BankingService test_accounts_binary64)"
    using not_a_number [THEN conjunct2, THEN conjunct2, THEN conjunct2, THEN conjunct2,
        THEN conjunct1] NaN src dst
    by simp
  have e: "processTransaction (BankingService test_accounts_binary64)
         (tx ''1111234522226789'' ''2222123433331212'' NaN ''alpha-sales'')
       = (Some (InsufficientFundsError ''1111234522226789'' NaN (literal 5000 1)),
          BankingService test_accounts_binary64)"
    using not_a_number [THEN conjunct2, THEN conjunct2, THEN conjunct2, THEN conjunct2,
        THEN conjunct2, THEN conjunct1] src dst
    by simp
  have f: "construct_and_process (BankingService test_accounts_binary64) ''1111234522226789''
         ''2222123433331212'' NaN ''alpha-sales''
       = (Some ZodError, BankingService test_accounts_binary64)"
    using not_a_number [THEN conjunct2, THEN conjunct2, THEN conjunct2, THEN conjunct2,
        THEN conjunct2, THEN conjunct2, THEN conjunct2, THEN conjunct1]
    by (simp add: zero_less_double)
  have g: "construct_and_process (BankingService test_accounts_binary64) ''123''
         ''1111234522226789'' (literal 100 1) ''alpha-sales''
       = (Some ZodError, BankingService test_accounts_binary64)"
    using malformed [THEN conjunct2, THEN conjunct2, THEN conjunct2, THEN conjunct2,
        THEN conjunct2, THEN conjunct2, THEN conjunct2, THEN conjunct1] numbers
    by simp
  from numbers NaN src a b c d e f g show ?thesis by simp
qed

text \<open>
  C4 as stated fails in three ways, here in binary64. For the malformed account number
  \<^verbatim>\<open>123\<close> and the positive amount 100, \<open>transfer\<close> goes on to the lookup and throws
  \<open>AccountNotFoundError\<close>, while constructing the transaction throws \<open>ZodError\<close>. For the
  amount \<open>NaN\<close> the guard \<^verbatim>\<open>amount <= 0\<close> of \<open>transfer\<close> is false: \<open>transfer\<close> throws no
  \<^verbatim>\<open>Error('Amount must be greater than 0')\<close> but goes through the lookups and the checks and
  throws the \<^verbatim>\<open>Error('Insufficient funds')\<close> of \<open>withdraw\<close>, while the constructor throws
  \<open>ZodError\<close>. And for a source account whose balance is \<open>NaN\<close> (the ledger after the
  validated transaction of \<^verbatim>\<open>Infinity\<close> from an account that holds \<^verbatim>\<open>Infinity\<close>) and the valid
  amount 100, \<open>transfer\<close> throws \<^verbatim>\<open>Error('Insufficient funds')\<close>, while constructing the
  transaction and processing it throws \<open>InsufficientFundsError\<close>.
\<close>

theorem transfer_counterexample:
  "fst (transfer (BankingService test_accounts_binary64) ''123'' ''1111234522226789''
       (literal 100 1) ''alpha-sales'') = Some (AccountNotFoundError ''123'')
   \<and> fst (construct_and_process (BankingService test_accounts_binary64) ''123''
       ''1111234522226789'' (literal 100 1) ''alpha-sales'') = Some ZodError
   \<and> accountNumber_ok ''1111234522226789'' \<and> accountNumber_ok ''2222123433331212''
   \<and> fst (transfer (BankingService test_accounts_binary64) ''1111234522226789'' ''2222123433331212'' NaN
       ''alpha-sales'') = Some (Error ''Insufficient funds'')
   \<and> fst (construct_and_process (BankingService test_accounts_binary64) ''1111234522226789''
       ''2222123433331212'' NaN ''alpha-sales'') = Some ZodError
   \<and> AccountEntity (acct ''1111234522226789'' PosInf ''alpha-sales'')
       = Inr (acct ''1111234522226789'' PosInf ''alpha-sales'')
   \<and> AccountEntity (acct ''2222123433331212'' (literal 550 1) ''alpha-sales'')
       = Inr (acct ''2222123433331212'' (literal 550 1) ''alpha-sales'')
   \<and> TransactionEntity (tx ''1111234522226789'' ''2222123433331212'' PosInf ''alpha-sales'')
       = Inr (tx ''1111234522226789'' ''2222123433331212'' PosInf ''alpha-sales'')
   \<and> map balance (getAllAccounts (step
        (BankingService [acct ''1111234522226789'' PosInf ''alpha-sales'',
           acct ''2222123433331212'' (literal 550 1) ''alpha-sales''])
        (ProcessTransaction (tx ''1111234522226789'' ''2222123433331212'' PosInf ''alpha-sales''))))
       = [NaN, PosInf]
   \<and> 0 < literal 100 1
   \<and> fst (transfer
        (step (BankingService [acct ''1111234522226789'' PosInf ''alpha-sales'',
           acct ''2222123433331212'' (literal 550 1) ''alpha-sales''])
          (ProcessTransaction (tx ''1111234522226789'' ''2222123433331212'' PosInf ''alpha-sales'')))
        ''1111234522226789'' ''2222123433331212'' (literal 100 1) ''alpha-sales'')
       = Some (Error ''Insufficient funds'')
   \<and> fst (construct_and_process
        (step (BankingService [acct ''1111234522226789'' PosInf ''alpha-sales'',
           acct ''2222123433331212'' (literal 550 1) ''alpha-sales''])
          (ProcessTransaction (tx ''1111234522226789'' ''2222123433331212'' PosInf ''alpha-sales'')))
        ''1111234522226789'' ''2222123433331212'' (literal 100 1) ''alpha-sales'')
       = Some (InsufficientFundsError ''1111234522226789'' (literal 100 1) NaN)"
  by code_simp

text \<open>
  C5. When the source is absent, \<open>processTransaction\<close> throws \<open>AccountNotFoundError\<close> with
  the source's number, whether or not the destination exists; when only the destination
  is absent, it throws \<open>AccountNotFoundError\<close> with the destination's number. In both
  services, and for every number type.
\<close>

theorem processTransaction_account_not_found:
  fixes accounts :: "('n::{ord,minus,plus}) company_account ledger"
    and accounts_p :: "'n account ledger"
  shows "(map_of accounts (fromAccount t) = None \<longrightarrow>
            processTransaction accounts t = (Some (AccountNotFoundError (fromAccount t)), accounts))
       \<and> (map_of accounts (fromAccount t) \<noteq> None \<and> map_of accounts (toAccount t) = None \<longrightarrow>
            processTransaction accounts t = (Some (AccountNotFoundError (toAccount t)), accounts))
       \<and> (map_of accounts_p (fromAccount t_p) = None \<longrightarrow>
            processTransaction_plain accounts_p t_p
              = (Some (AccountNotFoundError (fromAccount t_p)), accounts_p))
       \<and> (map_of accounts_p (fromAccount t_p) \<noteq> None \<and> map_of accounts_p (toAccount t_p) = None \<longrightarrow>
            processTransaction_plain accounts_p t_p
              = (Some (AccountNotFoundError (toAccount t_p)), accounts_p))"
  by (auto simp add: processTransaction_def processTransaction_plain_def)

text \<open>
  The two tests with the absent account \<^verbatim>\<open>0000000000000000\<close>, and a transaction between
  two absent accounts, which reports its source.
\<close>

theorem processTransaction_account_not_found_witness:
  "processTransaction (BankingService test_accounts)
       (tx ''0000000000000000'' ''1111234522226789'' 100 ''alpha-sales'')
     = (Some (AccountNotFoundError ''0000000000000000''), BankingService test_accounts)
   \<and> processTransaction (BankingService test_accounts)
       (tx ''1111234522226789'' ''0000000000000000'' 100 ''alpha-sales'')
     = (Some (AccountNotFoundError ''0000000000000000''), BankingService test_accounts)
   \<and> processTransaction (BankingService test_accounts)
       (tx ''0000000000000001'' ''0000000000000002'' 100 ''alpha-sales'')
     = (Some (AccountNotFoundError ''0000000000000001''), BankingService test_accounts)
   \<and> processTransaction_plain (BankingService test_accounts_plain)
       (tx_plain ''0000000000000000'' ''1111234522226789'' 100)
     = (Some (AccountNotFoundError ''0000000000000000''), BankingService test_accounts_plain)
   \<and> processTransaction_plain (BankingService test_accounts_plain)
       (tx_plain ''1111234522226789'' ''0000000000000000'' 100)
     = (Some (AccountNotFoundError ''0000000000000000''), BankingService test_accounts_plain)
   \<and> processTransaction_plain (BankingService test_accounts_plain)
       (tx_plain ''0000000000000001'' ''0000000000000002'' 100)
     = (Some (AccountNotFoundError ''0000000000000001''), BankingService test_accounts_plain)"
  using
    processTransaction_account_not_found
      [where accounts = "BankingService test_accounts"
         and t = "tx ''0000000000000000'' ''1111234522226789'' 100 ''alpha-sales''"
         and accounts_p = "BankingService test_accounts_plain"
         and t_p = "tx_plain ''0000000000000000'' ''1111234522226789'' 100"]
    processTransaction_account_not_found
      [where accounts = "BankingService test_accounts"
         and t = "tx ''1111234522226789'' ''0000000000000000'' 100 ''alpha-sales''"
         and accounts_p = "BankingService test_accounts_plain"
         and t_p = "tx_plain ''1111234522226789'' ''0000000000000000'' 100"]
    processTransaction_account_not_found
      [where accounts = "BankingService test_accounts"
         and t = "tx ''0000000000000001'' ''0000000000000002'' 100 ''alpha-sales''"
         and accounts_p = "BankingService test_accounts_plain"
         and t_p = "tx_plain ''0000000000000001'' ''0000000000000002'' 100"]
  by (simp add: BankingService_test_accounts BankingService_test_accounts_plain)

text \<open>
  C6. In the company-aware service, when both accounts exist and the source's company
  differs from the transaction's, \<open>processTransaction\<close> throws \<open>CompanyMismatchError\<close> with
  the transaction's company as the expected one and the source's company as the actual
  one, whatever the destination's company is; when only the destination's company
  differs, the actual one is the destination's. \<open>getAccountBalance\<close> throws
  \<open>CompanyMismatchError\<close> with the company asked for and the account's company when the two
  differ.
\<close>

theorem company_mismatch:
  fixes accounts :: "('n::{ord,minus,plus}) company_account ledger"
  shows "(map_of accounts (fromAccount t) = Some fa \<and> map_of accounts (toAccount t) = Some ta
           \<and> company_account.companyId fa \<noteq> company_transaction.companyId t \<longrightarrow>
            processTransaction accounts t =
              (Some (CompanyMismatchError (company_transaction.companyId t)
                       (company_account.companyId fa)), accounts))
       \<and> (map_of accounts (fromAccount t) = Some fa \<and> map_of accounts (toAccount t) = Some ta
           \<and> company_account.companyId fa = company_transaction.companyId t
           \<and> company_account.companyId ta \<noteq> company_transaction.companyId t \<longrightarrow>
            processTransaction accounts t =
              (Some (CompanyMismatchError (company_transaction.companyId t)
                       (company_account.companyId ta)), accounts))
       \<and> (map_of accounts accountNo = Some a \<and> company_account.companyId a \<noteq> company \<longrightarrow>
            getAccountBalance accounts accountNo company
              = Inl (CompanyMismatchError company (company_account.companyId a)))"
  by (simp add: processTransaction_def getAccountBalance_def)

text \<open>
  The tests with the account of \<^verbatim>\<open>beta-sales\<close> as source and as destination; a transaction
  of a third company between an account of \<^verbatim>\<open>beta-sales\<close> and one of \<^verbatim>\<open>alpha-sales\<close>, which
  reports the source's; and the balance query of the tests with the wrong company.
\<close>

theorem company_mismatch_witness:
  "processTransaction (BankingService test_accounts)
       (tx ''9999999999999999'' ''1111234522226789'' 100 ''alpha-sales'')
     = (Some (CompanyMismatchError ''alpha-sales'' ''beta-sales''), BankingService test_accounts)
   \<and> processTransaction (BankingService test_accounts)
       (tx ''1111234522226789'' ''9999999999999999'' 100 ''alpha-sales'')
     = (Some (CompanyMismatchError ''alpha-sales'' ''beta-sales''), BankingService test_accounts)
   \<and> processTransaction (BankingService test_accounts)
       (tx ''9999999999999999'' ''1111234522226789'' 100 ''gamma-sales'')
     = (Some (CompanyMismatchError ''gamma-sales'' ''beta-sales''), BankingService test_accounts)
   \<and> getAccountBalance (BankingService test_accounts) ''1111234522226789'' ''beta-sales''
     = Inl (CompanyMismatchError ''beta-sales'' ''alpha-sales'')"
  using
    company_mismatch
      [where accounts = "BankingService test_accounts"
         and t = "tx ''9999999999999999'' ''1111234522226789'' 100 ''alpha-sales''"
         and fa = "acct ''9999999999999999'' 1000 ''beta-sales''"
         and ta = "acct ''1111234522226789'' 5000 ''alpha-sales''"
         and accountNo = "''1111234522226789''" and company = "''beta-sales''"
         and a = "acct ''1111234522226789'' 5000 ''alpha-sales''"]
    company_mismatch
      [where accounts = "BankingService test_accounts"
         and t = "tx ''1111234522226789'' ''9999999999999999'' 100 ''alpha-sales''"
         and fa = "acct ''1111234522226789'' 5000 ''alpha-sales''"
         and ta = "acct ''9999999999999999'' 1000 ''beta-sales''"]
    company_mismatch
      [where accounts = "BankingService test_accounts"
         and t = "tx ''9999999999999999'' ''1111234522226789'' 100 ''gamma-sales''"
         and fa = "acct ''9999999999999999'' 1000 ''beta-sales''"
         and ta = "acct ''1111234522226789'' 5000 ''alpha-sales''"]
  by (simp add: BankingService_test_accounts)

text \<open>
  C7. For every amount that is zero or negative, \<open>transfer\<close> throws its own error and
  leaves the ledger as it is, whatever the ledger holds; and no transaction with such an
  amount can be processed, because the constructor of the transaction throws, so that
  constructing and processing leaves the ledger as it is too. In both services.
\<close>

theorem nonpositive_amount_rejected:
  fixes accounts :: "('n::ordered_ab_group_add) company_account ledger"
    and accounts_p :: "'n account ledger"
  shows "amt \<le> 0 \<longrightarrow>
           transfer accounts fromNo toNo amt company
             = (Some (Error ''Amount must be greater than 0''), accounts)
         \<and> transfer_plain accounts_p fromNo toNo amt
             = (Some (Error ''Amount must be greater than 0''), accounts_p)
         \<and> TransactionEntity (tx fromNo toNo amt company) = Inl ZodError
         \<and> TransactionEntity (tx_plain fromNo toNo amt) = Inl ZodError
         \<and> construct_and_process accounts fromNo toNo amt company = (Some ZodError, accounts)
         \<and> construct_and_process_plain accounts_p fromNo toNo amt = (Some ZodError, accounts_p)"
  by (auto simp add: transfer_def transfer_plain_def TransactionEntity_def TransactionSchema_def
      construct_and_process_def construct_and_process_plain_def less_le_not_le)

text \<open>The amounts 0 and -100 of the tests, between two accounts that could afford them.\<close>

theorem nonpositive_amount_rejected_witness:
  "(0 :: rat) \<le> 0 \<and> (-100 :: rat) \<le> 0
   \<and> transfer (BankingService test_accounts) ''1111234522226789'' ''2222123433331212'' 0
         ''alpha-sales''
       = (Some (Error ''Amount must be greater than 0''), BankingService test_accounts)
   \<and> transfer (BankingService test_accounts) ''1111234522226789'' ''2222123433331212'' (-100)
         ''alpha-sales''
       = (Some (Error ''Amount must be greater than 0''), BankingService test_accounts)
   \<and> transfer_plain (BankingService test_accounts_plain) ''1111234522226789''
         ''2222123433331212'' (-100)
       = (Some (Error ''Amount must be greater than 0''), BankingService test_accounts_plain)
   \<and> TransactionEntity (tx ''1111234522226789'' ''1111234522221234'' (0 :: rat) ''alpha-sales'')
       = Inl ZodError
   \<and> construct_and_process (BankingService test_accounts) ''1111234522226789''
         ''2222123433331212'' (-100) ''alpha-sales''
       = (Some ZodError, BankingService test_accounts)"
  using
    nonpositive_amount_rejected
      [where amt = "0 :: rat" and accounts = "BankingService test_accounts"
         and accounts_p = "BankingService test_accounts_plain"
         and fromNo = "''1111234522226789''" and toNo = "''2222123433331212''"
         and company = "''alpha-sales''"]
    nonpositive_amount_rejected
      [where amt = "-100 :: rat" and accounts = "BankingService test_accounts"
         and accounts_p = "BankingService test_accounts_plain"
         and fromNo = "''1111234522226789''" and toNo = "''2222123433331212''"
         and company = "''alpha-sales''"]
    nonpositive_amount_rejected
      [where amt = "0 :: rat" and accounts = "BankingService test_accounts"
         and accounts_p = "BankingService test_accounts_plain"
         and fromNo = "''1111234522226789''" and toNo = "''1111234522221234''"
         and company = "''alpha-sales''"]
  by simp

subsection \<open>The binary64 model on known values\<close>

text \<open>
  The model agrees with IEEE 754 where the outcome is well known: the number nearest to
  0.1, the sum \<^verbatim>\<open>0.1 + 0.2\<close> that is not the number nearest to 0.3, the ties at \<open>2 ^ 53\<close>, the
  rounding of subnormal numbers, and overflow.
\<close>

lemma binary64_known_values:
  "literal 1 10 = Finite 7205759403792794 (- 56)"
  "literal 1 10 + literal 2 10 = Finite 5404319552844596 (- 54)"
  "literal 3 10 = Finite 5404319552844595 (- 54)"
  "literal 1 1 - literal 7 10 = Finite 5404319552844596 (- 54)"
  "literal 9007199254740992 1 + literal 1 1 = literal 9007199254740992 1"
  "literal 9007199254740992 1 + literal 3 1 = literal 9007199254740996 1"
  "round_dyadic 3 (- 1076) = Finite 1 (- 1074)"
  "round_dyadic 1 (- 1075) = Finite 0 (- 1074)"
  "round_dyadic 3 (- 1075) = Finite 2 (- 1074)"
  "Finite 9007199254740991 971 + Finite 9007199254740991 971 = PosInf"
  by code_simp+

text \<open>The numbers of the scenario with a transfer of 0.01.\<close>

lemma binary64_scenario_values:
  "literal 1 100 = Finite 5764607523034235 (- 59)"
  "literal 5000 1 = Finite 5497558138880000 (- 40)"
  "literal 550 1 = Finite 4837851162214400 (- 43)"
  "literal 499999 100 = Finite 5497547143763722 (- 40)"
  "literal 55001 100 = Finite 4837939123144622 (- 43)"
  "Finite 5497558138880000 (- 40) - Finite 5764607523034235 (- 59)
     = Finite 5497547143763722 (- 40)"
  "Finite 4837851162214400 (- 43) + Finite 5764607523034235 (- 59)
     = Finite 4837939123144622 (- 43)"
  by code_simp+

text \<open>
  A check of these values that does not go through the rounding functions: each is
  within half a unit in the last place of the fraction it stands for, so it is the nearest
  binary64 number. The difference \<^verbatim>\<open>5000 - 0.01\<close> is not exact in binary64: it is the exact
  difference, rounded.
\<close>

lemma binary64_scenario_nearest:
  "value_of (literal 5000 1) = 5000"
  "value_of (literal 550 1) = 550"
  "\<bar>value_of (literal 1 100) - 1 / 100\<bar> < 1 / 2 ^ 60"
  "\<bar>value_of (literal 499999 100) - 499999 / 100\<bar> < 1 / 2 ^ 41"
  "\<bar>value_of (literal 55001 100) - 55001 / 100\<bar> < 1 / 2 ^ 44"
  "\<bar>value_of (literal 5000 1 - literal 1 100) - (5000 - value_of (literal 1 100))\<bar> < 1 / 2 ^ 41"
  "\<bar>value_of (literal 550 1 + literal 1 100) - (550 + value_of (literal 1 100))\<bar> < 1 / 2 ^ 44"
  "value_of (literal 5000 1 - literal 1 100) \<noteq> 5000 - value_of (literal 1 100)"
  by (simp_all add: binary64_scenario_values value_of_def del: plus_double.simps)

text \<open>
  C9. On the ledger of the tests, where account \<^verbatim>\<open>1111234522226789\<close> holds 5000.00 and account
  \<^verbatim>\<open>2222123433331212\<close> holds 550.00, processing a transaction of 0.01 from the first to the
  second throws nothing and leaves the balances 4999.99 and 550.01: in exact arithmetic
  (both services), and in binary64 arithmetic, where the balances are the numbers that
  the literals \<^verbatim>\<open>4999.99\<close> and \<^verbatim>\<open>550.01\<close> denote, as the tests assert with \<^verbatim>\<open>toBe\<close>. The
  withdrawal and the deposit apply no rounding of their own (to cents or otherwise).
\<close>

theorem small_amount_transfer:
  "fst (processTransaction (BankingService test_accounts)
         (tx ''1111234522226789'' ''2222123433331212'' 0.01 ''alpha-sales'')) = None
   \<and> getAccountBalance (snd (processTransaction (BankingService test_accounts)
         (tx ''1111234522226789'' ''2222123433331212'' 0.01 ''alpha-sales'')))
        ''1111234522226789'' ''alpha-sales'' = Inr 4999.99
   \<and> getAccountBalance (snd (processTransaction (BankingService test_accounts)
         (tx ''1111234522226789'' ''2222123433331212'' 0.01 ''alpha-sales'')))
        ''2222123433331212'' ''alpha-sales'' = Inr 550.01
   \<and> fst (processTransaction_plain (BankingService test_accounts_plain)
         (tx_plain ''1111234522226789'' ''2222123433331212'' 0.01)) = None
   \<and> getAccountBalance_plain (snd (processTransaction_plain (BankingService test_accounts_plain)
         (tx_plain ''1111234522226789'' ''2222123433331212'' 0.01)))
        ''1111234522226789'' = Inr 4999.99
   \<and> getAccountBalance_plain (snd (processTransaction_plain (BankingService test_accounts_plain)
         (tx_plain ''1111234522226789'' ''2222123433331212'' 0.01)))
        ''2222123433331212'' = Inr 550.01
   \<and> fst (processTransaction (BankingService test_accounts_binary64)
         (tx ''1111234522226789'' ''2222123433331212'' (literal 1 100) ''alpha-sales'')) = None
   \<and> getAccountBalance (snd (processTransaction (BankingService test_accounts_binary64)
         (tx ''1111234522226789'' ''2222123433331212'' (literal 1 100) ''alpha-sales'')))
        ''1111234522226789'' ''alpha-sales'' = Inr (literal 499999 100)
   \<and> getAccountBalance (snd (processTransaction (BankingService test_accounts_binary64)
         (tx ''1111234522226789'' ''2222123433331212'' (literal 1 100) ''alpha-sales'')))
        ''2222123433331212'' ''alpha-sales'' = Inr (literal 55001 100)"
proof -
  have exact:
    "processTransaction (BankingService test_accounts)
         (tx ''1111234522226789'' ''2222123433331212'' 0.01 ''alpha-sales'')
       = (None,
          [(''1111234522226789'', acct ''1111234522226789'' 4999.99 ''alpha-sales''),
           (''1111234522221234'', acct ''1111234522221234'' 10000 ''alpha-sales''),
           (''2222123433331212'', acct ''2222123433331212'' 550.01 ''alpha-sales''),
           (''9999999999999999'', acct ''9999999999999999'' 1000 ''beta-sales'')])"
    by (simp add: BankingService_test_accounts processTransaction_def canWithdraw_def
        withdraw_deposit_def withdraw_def deposit_def)
  have plain:
    "processTransaction_plain (BankingService test_accounts_plain)
         (tx_plain ''1111234522226789'' ''2222123433331212'' 0.01)
       = (None,
          [(''1111234522226789'', acct_plain ''1111234522226789'' 4999.99),
           (''1111234522221234'', acct_plain ''1111234522221234'' 10000),
           (''2222123433331212'', acct_plain ''2222123433331212'' 550.01)])"
    by (simp add: BankingService_test_accounts_plain processTransaction_plain_def canWithdraw_def
        withdraw_deposit_def withdraw_def deposit_def)
  have binary64:
    "processTransaction (BankingService test_accounts_binary64)
         (tx ''1111234522226789'' ''2222123433331212'' (literal 1 100) ''alpha-sales'')
       = (None,
          [(''1111234522226789'', acct ''1111234522226789'' (literal 499999 100) ''alpha-sales''),
           (''1111234522221234'', acct ''1111234522221234'' (literal 10000 1) ''alpha-sales''),
           (''2222123433331212'', acct ''2222123433331212'' (literal 55001 100) ''alpha-sales''),
           (''9999999999999999'', acct ''9999999999999999'' (literal 1000 1) ''beta-sales'')])"
    by code_simp
  show ?thesis
    unfolding exact plain binary64
    by (simp add: getAccountBalance_def getAccountBalance_plain_def)
qed

text \<open>The cent is not lost: neither balance is what it was, in either arithmetic.\<close>

theorem small_amount_transfer_witness:
  "getAccountBalance (snd (processTransaction (BankingService test_accounts)
         (tx ''1111234522226789'' ''2222123433331212'' 0.01 ''alpha-sales'')))
        ''1111234522226789'' ''alpha-sales'' \<noteq> Inr 5000
   \<and> getAccountBalance (snd (processTransaction (BankingService test_accounts)
         (tx ''1111234522226789'' ''2222123433331212'' 0.01 ''alpha-sales'')))
        ''2222123433331212'' ''alpha-sales'' \<noteq> Inr 550
   \<and> getAccountBalance (snd (processTransaction (BankingService test_accounts_binary64)
         (tx ''1111234522226789'' ''2222123433331212'' (literal 1 100) ''alpha-sales'')))
        ''1111234522226789'' ''alpha-sales'' \<noteq> Inr (literal 5000 1)
   \<and> getAccountBalance (snd (processTransaction (BankingService test_accounts_binary64)
         (tx ''1111234522226789'' ''2222123433331212'' (literal 1 100) ''alpha-sales'')))
        ''2222123433331212'' ''alpha-sales'' \<noteq> Inr (literal 550 1)"
  using small_amount_transfer by (simp add: binary64_scenario_values)

end
